theory Spec2Isabelle
  imports Complex_Main
begin

section \<open>JavaScript values\<close>

text \<open>
  The order processor works on untyped data: the bodies of HTTP responses and the
  order kept in the application state. A value is JSON data or \<open>undefined\<close>. A string
  is the list of its code units, an object the list of its own properties in
  insertion order, a number its numeric value.
\<close>

datatype jsval =
    JUndefined
  | JNull
  | JBool bool
  | JNum rat
  | JStr string
  | JArr "jsval list"
  | JObj "(string \<times> jsval) list"

type_synonym props = "(string \<times> jsval) list"

text \<open>
  What is thrown. A \<open>TypeError\<close> is raised by the engine (a property read on
  \<open>undefined\<close> or \<open>null\<close>, a call of something that is not a function); its text is
  the engine's and is kept short here. \<open>Error\<close> is a plain \<open>Error\<close> with its message
  (also what the libraries reject with). \<open>WyreException\<close> is the class of
  wyreApplePay.js: the message set by \<open>super(message)\<close>, then \<open>type\<close> and \<open>id\<close>.
\<close>

datatype exn =
    TypeError string
  | Error string
  | WyreException string jsval jsval

text \<open>Sequencing of computations that may throw.\<close>

definition bind_exn :: "exn + 'a \<Rightarrow> ('a \<Rightarrow> exn + 'b) \<Rightarrow> exn + 'b" where
  "bind_exn m f = (case m of Inl e \<Rightarrow> Inl e | Inr x \<Rightarrow> f x)"

text \<open>
  The parts of the language that are not modelled are taken from the runtime:
  \<open>computed_member b k\<close> is \<open>b[k]\<close> for a base \<open>b\<close> that is neither \<open>undefined\<close> nor
  \<open>null\<close> (it converts the key and walks the prototype chain), and \<open>to_string\<close> is
  ToString on a value that is not a string (it prints numbers).
\<close>

record runtime =
  computed_member :: "jsval \<Rightarrow> jsval \<Rightarrow> jsval"
  to_string :: "jsval \<Rightarrow> string"

definition ToString :: "runtime \<Rightarrow> jsval \<Rightarrow> string" where
  "ToString rt v = (case v of JStr s \<Rightarrow> s | _ \<Rightarrow> to_string rt v)"

text \<open>\<open>!v\<close> is \<open>\<not> truthy v\<close>.\<close>

fun truthy :: "jsval \<Rightarrow> bool" where
  "truthy JUndefined = False"
| "truthy JNull = False"
| "truthy (JBool b) = b"
| "truthy (JNum n) = (n \<noteq> 0)"
| "truthy (JStr s) = (s \<noteq> [])"
| "truthy (JArr xs) = True"
| "truthy (JObj ps) = True"

text \<open>
  \<open>v.k\<close> for a name \<open>k\<close> written in the source. None of the names this code reads is
  defined on a built-in prototype, so the read finds an own property of an object or
  nothing; on \<open>undefined\<close> and \<open>null\<close> it throws.
\<close>

fun member :: "jsval \<Rightarrow> string \<Rightarrow> exn + jsval" where
  "member JUndefined k = Inl (TypeError ''undefined is not an object'')"
| "member JNull k = Inl (TypeError ''null is not an object'')"
| "member (JObj ps) k = Inr (case map_of ps k of None \<Rightarrow> JUndefined | Some v \<Rightarrow> v)"
| "member v k = Inr JUndefined"

text \<open>Assignment to a property: an existing key keeps its place, a new one goes last.\<close>

fun set_prop :: "props \<Rightarrow> string \<Rightarrow> jsval \<Rightarrow> props" where
  "set_prop [] k v = [(k, v)]"
| "set_prop ((k', v') # ps) k v =
     (if k' = k then (k, v) # ps else (k', v') # set_prop ps k v)"

text \<open>\<open>{...a, ...b}\<close> on property lists: the properties of \<open>b\<close> are assigned in order.\<close>

definition spread :: "props \<Rightarrow> props \<Rightarrow> props" where
  "spread a b = foldl (\<lambda>acc (k, v). set_prop acc k v) a b"

text \<open>Decimal digits of an index, for the keys of strings and arrays.\<close>

definition digit :: "nat \<Rightarrow> char" where
  "digit n = ''0123456789'' ! n"

function decimal :: "nat \<Rightarrow> string" where
  "decimal n =
     (if n < 10 then [digit n]
      else decimal (n div 10) @ [digit (n mod 10)])"
  by pat_completeness auto
termination
  by (relation "measure (\<lambda>n. n)") auto

declare decimal.simps [simp del]

text \<open>
  The own enumerable properties that a spread \<open>...v\<close> copies: those of an object,
  the indexed elements of an array and of a string, nothing for the other values.
\<close>

fun own_props :: "jsval \<Rightarrow> props" where
  "own_props (JObj ps) = ps"
| "own_props (JArr xs) = map (\<lambda>i. (decimal i, xs ! i)) [0..<length xs]"
| "own_props (JStr s) = map (\<lambda>i. (decimal i, JStr [s ! i])) [0..<length s]"
| "own_props v = []"

section \<open>Strings\<close>

text \<open>\<open>s.indexOf(pat)\<close>: the first position at which \<open>pat\<close> occurs in \<open>s\<close>, or -1.\<close>

fun index_from :: "string \<Rightarrow> string \<Rightarrow> nat \<Rightarrow> int" where
  "index_from [] pat i = (if pat = [] then int i else - 1)"
| "index_from (c # cs) pat i =
     (if take (length pat) (c # cs) = pat then int i else index_from cs pat (Suc i))"

definition indexOf :: "string \<Rightarrow> string \<Rightarrow> int" where
  "indexOf s pat = index_from s pat 0"

text \<open>\<open>s.substring(n)\<close>: a start beyond the end gives the empty string.\<close>

definition substring :: "string \<Rightarrow> nat \<Rightarrow> string" where
  "substring s n = drop n s"

text \<open>\<open>s.includes(pat)\<close>.\<close>

definition includes_str :: "string \<Rightarrow> string \<Rightarrow> bool" where
  "includes_str s pat = (0 \<le> indexOf s pat)"

text \<open>\<open>s.split(c)\<close> for a separator of one code unit.\<close>

fun split_on :: "char \<Rightarrow> string \<Rightarrow> string list" where
  "split_on c [] = [[]]"
| "split_on c (x # xs) =
     (if x = c then [] # split_on c xs
      else (case split_on c xs of [] \<Rightarrow> [[x]] | w # ws \<Rightarrow> (x # w) # ws))"

section \<open>wyreApplePay.js: constants and the remote API\<close>

text \<open>
  \<open>FIAT_ORDER_STATES\<close> and \<open>FIAT_ORDER_PROVIDERS\<close> are imported from
  reducers/fiatOrders, which is not among the sources: the members this file reads
  are parameters.
\<close>

record fiatOrders =
  PENDING :: jsval
  COMPLETED :: jsval
  CANCELLED :: jsval
  WYRE_APPLE_PAY :: jsval

definition WYRE_ORDER_STATES_RUNNING_CHECKS :: jsval where
  "WYRE_ORDER_STATES_RUNNING_CHECKS = JStr ''RUNNING_CHECKS''"

definition WYRE_ORDER_STATES_FAILED :: jsval where
  "WYRE_ORDER_STATES_FAILED = JStr ''FAILED''"

definition WYRE_ORDER_STATES_PROCESSING :: jsval where
  "WYRE_ORDER_STATES_PROCESSING = JStr ''PROCESSING''"

definition WYRE_ORDER_STATES_COMPLETE :: jsval where
  "WYRE_ORDER_STATES_COMPLETE = JStr ''COMPLETE''"

text \<open>
  What the HTTP client resolves with: an object with the members \<open>data\<close>, \<open>status\<close>,
  \<open>statusText\<close>, \<open>headers\<close>, \<open>config\<close> and \<open>request\<close>. \<open>response_object\<close> is that object
  as a value, for the places where the code passes the whole response on.
\<close>

record response =
  data :: jsval
  status :: nat
  statusText :: string
  headers :: jsval
  config :: jsval
  request :: jsval

definition response_object :: "response \<Rightarrow> jsval" where
  "response_object r =
     JObj [(''data'', data r), (''status'', JNum (of_nat (status r))),
           (''statusText'', JStr (statusText r)), (''headers'', headers r),
           (''config'', config r), (''request'', request r)]"

text \<open>
  The remote side. \<open>getOrderStatus\<close> and \<open>getTransferStatus\<close> are the two GET
  requests, by identifier: each throws or resolves with a response. \<open>post\<close> is the
  transport under \<open>createFiatOrder\<close>: a network failure or timeout, or whatever
  response the server gave.
\<close>

record wyreAPI =
  getOrderStatus :: "jsval \<Rightarrow> exn + response"
  getTransferStatus :: "jsval \<Rightarrow> exn + response"
  post :: "jsval \<Rightarrow> exn + response"

text \<open>
  \<open>createFiatOrder\<close> posts with \<open>validateStatus: status => status >= 200\<close>: the client
  resolves with the response when the check holds and rejects otherwise.
\<close>

definition validateStatus :: "nat \<Rightarrow> bool" where
  "validateStatus st = (st \<ge> 200)"

definition createFiatOrder :: "wyreAPI \<Rightarrow> jsval \<Rightarrow> exn + response" where
  "createFiatOrder api payload =
     bind_exn (post api payload) (\<lambda>r.
       if validateStatus (status r) then Inr r
       else Inl (Error (''Request failed with status code '' @ decimal (status r))))"

section \<open>wyreApplePay.js: helpers\<close>

text \<open>
  \<open>dest.indexOf('ethereum:') === 0 ? dest.substring(9) : dest\<close>. On a string both
  methods are the string's. An array has \<open>indexOf\<close> (the position of the first
  element strictly equal to the argument) and no \<open>substring\<close>; the other values have
  no \<open>indexOf\<close>.
\<close>

fun destToAddress :: "jsval \<Rightarrow> exn + jsval" where
  "destToAddress (JStr dest) =
     Inr (JStr (if indexOf dest ''ethereum:'' = 0 then substring dest 9 else dest))"
| "destToAddress (JArr xs) =
     (case xs of
        [] \<Rightarrow> Inr (JArr xs)
      | x # _ \<Rightarrow>
          if x = JStr ''ethereum:'' then Inl (TypeError ''dest.substring is not a function'')
          else Inr (JArr xs))"
| "destToAddress JUndefined = Inl (TypeError ''undefined is not an object'')"
| "destToAddress JNull = Inl (TypeError ''null is not an object'')"
| "destToAddress v = Inl (TypeError ''dest.indexOf is not a function'')"

text \<open>The \<open>switch\<close> compares with \<open>===\<close>; the two last cases fall through to the default.\<close>

definition wyreOrderStateToFiatState :: "fiatOrders \<Rightarrow> jsval \<Rightarrow> jsval" where
  "wyreOrderStateToFiatState F wyreOrderState =
     (if wyreOrderState = WYRE_ORDER_STATES_COMPLETE then COMPLETED F
      else if wyreOrderState = WYRE_ORDER_STATES_FAILED then CANCELLED F
      else if wyreOrderState = WYRE_ORDER_STATES_RUNNING_CHECKS then PENDING F
      else if wyreOrderState = WYRE_ORDER_STATES_PROCESSING then PENDING F
      else PENDING F)"

definition wyreOrderToFiatOrder :: "fiatOrders \<Rightarrow> jsval \<Rightarrow> exn + props" where
  "wyreOrderToFiatOrder F wyreOrder =
     bind_exn (member wyreOrder ''id'') (\<lambda>oid.
     bind_exn (member wyreOrder ''sourceAmount'') (\<lambda>sourceAmount.
     bind_exn (member wyreOrder ''sourceCurrency'') (\<lambda>sourceCurrency.
     bind_exn (member wyreOrder ''destCurrency'') (\<lambda>destCurrency.
     bind_exn (member wyreOrder ''status'') (\<lambda>st.
     bind_exn (member wyreOrder ''dest'') (\<lambda>dest.
     bind_exn (destToAddress dest) (\<lambda>account.
       Inr [(''id'', oid),
            (''provider'', WYRE_APPLE_PAY F),
            (''amount'', sourceAmount),
            (''fee'', JNull),
            (''cryptoAmount'', JNull),
            (''cryptoFee'', JNull),
            (''currency'', sourceCurrency),
            (''cryptocurrency'', destCurrency),
            (''state'', wyreOrderStateToFiatState F st),
            (''account'', account),
            (''txHash'', JNull),
            (''data'', JObj [(''order'', wyreOrder)])])))))))"

definition wyreTransferToFiatOrder :: "runtime \<Rightarrow> jsval \<Rightarrow> exn + props" where
  "wyreTransferToFiatOrder rt wyreTransfer =
     bind_exn (member wyreTransfer ''fee'') (\<lambda>fee.
     bind_exn (member wyreTransfer ''destAmount'') (\<lambda>destAmount.
     bind_exn (member wyreTransfer ''fee'') (\<lambda>fee'.
     bind_exn (if truthy fee'
               then bind_exn (member wyreTransfer ''fee'') (\<lambda>fee''.
                    bind_exn (member wyreTransfer ''destCurrency'') (\<lambda>destCurrency.
                      Inr (computed_member rt fee'' destCurrency)))
               else Inr JNull) (\<lambda>cryptoFee.
     bind_exn (member wyreTransfer ''blockchainNetworkTx'') (\<lambda>blockchainNetworkTx.
       Inr [(''fee'', fee),
            (''cryptoAmount'', destAmount),
            (''cryptoFee'', cryptoFee),
            (''txHash'', blockchainNetworkTx)])))))"

section \<open>wyreApplePay.js: processWyreApplePayOrder\<close>

text \<open>
  The body of the \<open>try\<close>. \<open>transfer\<close> is what \<open>await getTransferStatus(transferId)\<close>
  gives, the response itself.
\<close>

definition processWyreApplePayOrder_try ::
  "runtime \<Rightarrow> fiatOrders \<Rightarrow> wyreAPI \<Rightarrow> jsval \<Rightarrow> exn + jsval" where
  "processWyreApplePayOrder_try rt F api order =
     bind_exn (member order ''id'') (\<lambda>oid.
     bind_exn (getOrderStatus api oid) (\<lambda>r.
       let d = data r in
       if \<not> truthy d then Inr order
       else
         bind_exn (member d ''transferId'') (\<lambda>transferId.
           if truthy transferId then
             bind_exn (getTransferStatus api transferId) (\<lambda>tr.
               let transfer = response_object tr in
               bind_exn (wyreOrderToFiatOrder F d) (\<lambda>fo.
               bind_exn (wyreTransferToFiatOrder rt transfer) (\<lambda>ft.
                 Inr (JObj (set_prop (spread (spread (own_props order) fo) ft) ''data''
                              (JObj [(''order'', d), (''transfer'', transfer)]))))))
           else
             bind_exn (wyreOrderToFiatOrder F d) (\<lambda>fo.
               Inr (JObj (spread (own_props order) fo))))))"

text \<open>The \<open>catch\<close> returns the order it was given.\<close>

definition processWyreApplePayOrder ::
  "runtime \<Rightarrow> fiatOrders \<Rightarrow> wyreAPI \<Rightarrow> jsval \<Rightarrow> jsval" where
  "processWyreApplePayOrder rt F api order =
     (case processWyreApplePayOrder_try rt F api order of
        Inl error \<Rightarrow> order
      | Inr result \<Rightarrow> result)"

text \<open>
  \<open>read v k\<close> is the value of \<open>v.k\<close> where that read does not throw, and \<open>field v k\<close>
  the own property \<open>k\<close> of a record, if it has one.
\<close>

definition read :: "jsval \<Rightarrow> string \<Rightarrow> jsval" where
  "read v k = (case member v k of Inl e \<Rightarrow> JUndefined | Inr x \<Rightarrow> x)"

definition field :: "jsval \<Rightarrow> string \<Rightarrow> jsval option" where
  "field v k = map_of (own_props v) k"

section \<open>wyreApplePay.js: the checkout\<close>

definition USD_CURRENCY_CODE :: jsval where
  "USD_CURRENCY_CODE = JStr ''USD''"

definition ETH_CURRENCY_CODE :: jsval where
  "ETH_CURRENCY_CODE = JStr ''ETH''"

definition PAYMENT_REQUEST_COMPLETE_SUCCESS :: string where
  "PAYMENT_REQUEST_COMPLETE_SUCCESS = ''success''"

definition PAYMENT_REQUEST_COMPLETE_FAIL :: string where
  "PAYMENT_REQUEST_COMPLETE_FAIL = ''fail''"

text \<open>
  The constructor of \<open>WyreException\<close>: \<open>super(message)\<close> keeps the message as a
  string, and leaves the empty message of the prototype when it is given
  \<open>undefined\<close>.
\<close>

definition new_WyreException :: "runtime \<Rightarrow> jsval \<Rightarrow> jsval \<Rightarrow> jsval \<Rightarrow> exn" where
  "new_WyreException rt message type exceptionId =
     WyreException (if message = JUndefined then [] else ToString rt message) type exceptionId"

text \<open>\<open>error.message\<close> of what was thrown.\<close>

fun exn_message :: "exn \<Rightarrow> string" where
  "exn_message (TypeError m) = m"
| "exn_message (Error m) = m"
| "exn_message (WyreException m t i) = m"

text \<open>\<open>v.split('\n')\<close>: only a string has the method.\<close>

fun split_lines :: "jsval \<Rightarrow> exn + jsval" where
  "split_lines (JStr s) = Inr (JArr (map JStr (split_on (CHR 0x0A) s)))"
| "split_lines JUndefined = Inl (TypeError ''undefined is not an object'')"
| "split_lines JNull = Inl (TypeError ''null is not an object'')"
| "split_lines v = Inl (TypeError ''postalAddress.street.split is not a function'')"

text \<open>
  \<open>partnerId\<close> is a constant of the module, chosen from the environment file; it is
  a parameter here, as is the payment sheet below.
\<close>

definition createPayload :: "runtime \<Rightarrow> jsval \<Rightarrow> jsval \<Rightarrow> jsval \<Rightarrow> jsval \<Rightarrow> exn + jsval" where
  "createPayload rt partnerId amount address paymentDetails =
     bind_exn (member paymentDetails ''billingContact'') (\<lambda>billingContact.
     bind_exn (member billingContact ''postalAddress'') (\<lambda>postalAddress.
     bind_exn (member billingContact ''name'') (\<lambda>name.
     bind_exn (member paymentDetails ''paymentData'') (\<lambda>paymentData.
     bind_exn (member paymentDetails ''paymentMethod'') (\<lambda>paymentMethod.
     bind_exn (member paymentDetails ''shippingContact'') (\<lambda>shippingContact.
     bind_exn (member paymentDetails ''transactionIdentifier'') (\<lambda>transactionIdentifier.
     let dest = JStr (''ethereum:'' @ ToString rt address) in
     bind_exn (member postalAddress ''street'') (\<lambda>street.
     bind_exn (split_lines street) (\<lambda>addressLines.
     bind_exn (member postalAddress ''state'') (\<lambda>administrativeArea.
     bind_exn (member postalAddress ''country'') (\<lambda>country.
     bind_exn (member postalAddress ''ISOCountryCode'') (\<lambda>countryCode.
     bind_exn (member name ''familyName'') (\<lambda>familyName.
     bind_exn (member name ''givenName'') (\<lambda>givenName.
     bind_exn (member postalAddress ''city'') (\<lambda>locality.
     bind_exn (member postalAddress ''postalCode'') (\<lambda>postalCode.
     bind_exn (member postalAddress ''subAdministrativeArea'') (\<lambda>subAdministrativeArea.
     bind_exn (member postalAddress ''subLocality'') (\<lambda>subLocality.
     let formattedBillingContact =
           [(''addressLines'', addressLines),
            (''administrativeArea'', administrativeArea),
            (''country'', country),
            (''countryCode'', countryCode),
            (''familyName'', familyName),
            (''givenName'', givenName),
            (''locality'', locality),
            (''postalCode'', postalCode),
            (''subAdministrativeArea'', subAdministrativeArea),
            (''subLocality'', subLocality)] in
     bind_exn (member shippingContact ''emailAddress'') (\<lambda>emailAddress.
     bind_exn (member shippingContact ''phoneNumber'') (\<lambda>phoneNumber.
     let formattedShippingContact =
           set_prop (set_prop (spread [] formattedBillingContact)
             ''emailAddress'' emailAddress) ''phoneNumber'' phoneNumber in
     Inr (JObj
       [(''partnerId'', partnerId),
        (''payload'', JObj
          [(''orderRequest'', JObj
             [(''amount'', amount),
              (''dest'', dest),
              (''destCurrency'', ETH_CURRENCY_CODE),
              (''referrerAccountId'', partnerId),
              (''sourceCurrency'', USD_CURRENCY_CODE)]),
           (''paymentObject'', JObj
             [(''billingContact'', JObj formattedBillingContact),
              (''shippingContact'', JObj formattedShippingContact),
              (''token'', JObj
                [(''paymentData'', paymentData),
                 (''paymentMethod'',
                    JObj (set_prop (spread [] (own_props paymentMethod)) ''type'' (JStr ''debit''))),
                 (''transactionIdentifier'', transactionIdentifier)])])])])))))))))))))))))))))"

text \<open>
  The payment sheet of react-native-payments. \<open>show()\<close> rejects, or resolves with a
  payment response or with nothing; \<open>complete(result)\<close> of a response resolves
  (\<open>None\<close>) or rejects. \<open>new PaymentRequest(...)\<close> may throw on its arguments, which
  are fixed by the hook and are not varied here.
\<close>

record paymentResponse =
  details :: jsval
  complete :: "string \<Rightarrow> exn option"

record paymentRequest =
  show_sheet :: "exn + paymentResponse option"

record payments =
  partnerId :: jsval
  new_PaymentRequest :: "exn + paymentRequest"

text \<open>What \<open>showRequest\<close> does to the sheet and to the network, in order.\<close>

datatype effect =
    Show
  | Post jsval
  | Complete string
  | Abort

text \<open>
  The body of the \<open>try\<close> of \<open>showRequest\<close>, with the effects up to the point where it
  returns or throws. \<open>complete(SUCCESS)\<close> is awaited; \<open>complete(FAIL)\<close> is not, so
  what it resolves with is not looked at.
\<close>

definition showRequest_try ::
  "runtime \<Rightarrow> fiatOrders \<Rightarrow> wyreAPI \<Rightarrow> payments \<Rightarrow> paymentRequest \<Rightarrow>
     jsval \<Rightarrow> jsval \<Rightarrow> jsval \<Rightarrow> effect list \<times> (exn + jsval)" where
  "showRequest_try rt F api pay pr total' address network =
     (case show_sheet pr of
        Inl e \<Rightarrow> ([Show], Inl e)
      | Inr None \<Rightarrow> ([Show], Inl (Error ''Payment Request Failed''))
      | Inr (Some resp) \<Rightarrow>
          (case createPayload rt (partnerId pay) total' address (details resp) of
             Inl e \<Rightarrow> ([Show], Inl e)
           | Inr payload \<Rightarrow>
               (case createFiatOrder api payload of
                  Inl e \<Rightarrow> ([Show, Post payload], Inl e)
                | Inr r \<Rightarrow>
                    if status r \<ge> 200 \<and> status r < 300 then
                      (case complete resp PAYMENT_REQUEST_COMPLETE_SUCCESS of
                         Some e \<Rightarrow>
                           ([Show, Post payload, Complete PAYMENT_REQUEST_COMPLETE_SUCCESS], Inl e)
                       | None \<Rightarrow>
                           ([Show, Post payload, Complete PAYMENT_REQUEST_COMPLETE_SUCCESS],
                            bind_exn (wyreOrderToFiatOrder F (data r)) (\<lambda>fo.
                              Inr (JObj (set_prop (spread [] fo) ''network'' network)))))
                    else
                      ([Show, Post payload, Complete PAYMENT_REQUEST_COMPLETE_FAIL],
                       bind_exn (member (data r) ''message'') (\<lambda>message.
                       bind_exn (member (data r) ''type'') (\<lambda>type.
                       bind_exn (member (data r) ''exceptionId'') (\<lambda>exceptionId.
                         Inl (new_WyreException rt message type exceptionId))))))))"

text \<open>
  \<open>showRequest\<close>: the request is built outside the \<open>try\<close>. The \<open>catch\<close> returns \<open>null\<close>
  when the message of the error contains \<open>AbortError\<close>; otherwise it aborts the
  sheet (a request always has \<open>abort\<close>) and throws the error again.
\<close>

definition showRequest ::
  "runtime \<Rightarrow> fiatOrders \<Rightarrow> wyreAPI \<Rightarrow> payments \<Rightarrow>
     jsval \<Rightarrow> jsval \<Rightarrow> jsval \<Rightarrow> effect list \<times> (exn + jsval)" where
  "showRequest rt F api pay total' address network =
     (case new_PaymentRequest pay of
        Inl e \<Rightarrow> ([], Inl e)
      | Inr pr \<Rightarrow>
          (case showRequest_try rt F api pay pr total' address network of
             (effs, Inr result) \<Rightarrow> (effs, Inr result)
           | (effs, Inl error) \<Rightarrow>
               if includes_str (exn_message error) ''AbortError'' then (effs, Inr JNull)
               else (effs @ [Abort], Inl error)))"

section \<open>The mnemonic backup helper\<close>

definition MESSAGE_2_SIGN :: string where
  "MESSAGE_2_SIGN = ''InstaPayMnemonic''"

text \<open>
  The keyring controller of the engine: its state lists the keyrings, each with its
  accounts, and \<open>signPersonalMessage\<close> takes the data and the \<open>from\<close> account, which
  is \<open>None\<close> where the code passes \<open>undefined\<close>. It resolves with a signature or
  rejects. Its first argument is the occasion of the call: nothing in the code says
  that two calls with the same data and account give the same signature.
  \<open>byteArrayToHex\<close> is imported from util/bytes, which is not among the sources, and
  is a parameter.
\<close>

record keyring =
  accounts :: "string list"

record engine =
  keyrings :: "keyring list"
  signPersonalMessage :: "nat \<Rightarrow> string \<Rightarrow> string option \<Rightarrow> exn + string"
  byteArrayToHex :: "string \<Rightarrow> string"

text \<open>\<open>allKeyrings.reduce((list, keyring) => list.concat(keyring.accounts), [])\<close>.\<close>

definition accountsOrdered :: "engine \<Rightarrow> string list" where
  "accountsOrdered E = foldl (\<lambda>list keyring. list @ accounts keyring) [] (keyrings E)"

text \<open>\<open>accountsOrdered[0]\<close>: \<open>undefined\<close> on the empty array.\<close>

definition first_account :: "string list \<Rightarrow> string option" where
  "first_account xs = (case xs of [] \<Rightarrow> None | a # _ \<Rightarrow> Some a)"

definition signMessageWithAccount0 :: "engine \<Rightarrow> nat \<Rightarrow> string \<Rightarrow> exn + string" where
  "signMessageWithAccount0 E t message =
     (let hexMessage = byteArrayToHex E message in
      bind_exn (signPersonalMessage E t hexMessage (first_account (accountsOrdered E)))
        (\<lambda>rawSig. Inr rawSig))"


text \<open>
  The encryptor that the callers pass in: \<open>encrypt(password, object)\<close> and
  \<open>decrypt(password, text)\<close>, each resolving or rejecting. Encryption may differ from
  one occasion to the next (a fresh salt).
\<close>

record encryptor =
  encrypt :: "nat \<Rightarrow> string \<Rightarrow> string \<Rightarrow> exn + string"
  decrypt :: "string \<Rightarrow> string \<Rightarrow> exn + string"

definition encryptMnenomic :: "engine \<Rightarrow> encryptor \<Rightarrow> nat \<Rightarrow> string \<Rightarrow> exn + string" where
  "encryptMnenomic E enc t mnemonic =
     bind_exn (signMessageWithAccount0 E t MESSAGE_2_SIGN) (\<lambda>password.
       encrypt enc t password mnemonic)"

definition decryptMnemonic :: "engine \<Rightarrow> encryptor \<Rightarrow> nat \<Rightarrow> string \<Rightarrow> exn + string" where
  "decryptMnemonic E enc t encryptedMnemonic =
     bind_exn (signMessageWithAccount0 E t MESSAGE_2_SIGN) (\<lambda>password.
       decrypt enc password encryptedMnemonic)"

section \<open>The EnterPasswordSimple screen\<close>

text \<open>
  The state of the component. The password is the list of the code units of the
  string, whatever stands for a code unit; \<open>length\<close> counts them, as \<open>.length\<close> does.
\<close>

record 'u screen_state =
  password :: "'u list"
  loading :: bool
  error :: "string option"








definition onPasswordChange :: "'u list \<Rightarrow> 'u screen_state \<Rightarrow> 'u screen_state" where
  "onPasswordChange val st = st\<lparr>password := val\<rparr>"

section \<open>Concrete data\<close>

text \<open>
  Values for the evaluations below. The table of local states carries the names of
  its members. The runtime looks a string key up among the own properties of an
  object and prints \<open>undefined\<close>, \<open>null\<close>, the booleans and an object; no evaluation
  below reaches it with anything else (a number or an array to print, a key that is
  not a string), and there it gives \<open>undefined\<close> and the empty text.
\<close>

definition fiat_orders :: fiatOrders where
  "fiat_orders =
     \<lparr>PENDING = JStr ''PENDING'', COMPLETED = JStr ''COMPLETED'',
      CANCELLED = JStr ''CANCELLED'', WYRE_APPLE_PAY = JStr ''WYRE_APPLE_PAY''\<rparr>"

definition plain_runtime :: runtime where
  "plain_runtime =
     \<lparr>computed_member = (\<lambda>b k.
        case (b, k) of
          (JObj ps, JStr s) \<Rightarrow> (case map_of ps s of None \<Rightarrow> JUndefined | Some v \<Rightarrow> v)
        | _ \<Rightarrow> JUndefined),
      to_string = (\<lambda>v.
        case v of
          JUndefined \<Rightarrow> ''undefined''
        | JNull \<Rightarrow> ''null''
        | JBool b \<Rightarrow> (if b then ''true'' else ''false'')
        | JObj ps \<Rightarrow> ''[object Object]''
        | _ \<Rightarrow> [])\<rparr>"

definition ok_response :: "jsval \<Rightarrow> response" where
  "ok_response body =
     \<lparr>data = body, status = 200, statusText = ''OK'', headers = JObj [],
      config = JObj [], request = JObj []\<rparr>"

text \<open>A pending order of the application state, with a fee already recorded.\<close>

definition stored_order :: jsval where
  "stored_order =
     JObj [(''id'', JStr ''WO_ELTUVYCAFPG''),
           (''provider'', JStr ''WYRE_APPLE_PAY''),
           (''amount'', JNum 2),
           (''fee'', JNum (1 / 2)),
           (''cryptoAmount'', JNum (1 / 500)),
           (''cryptoFee'', JNum (1 / 10000)),
           (''currency'', JStr ''USD''),
           (''cryptocurrency'', JStr ''ETH''),
           (''state'', JStr ''PENDING''),
           (''account'', JStr ''0x9E01''),
           (''txHash'', JStr ''0xfeed''),
           (''network'', JStr ''1''),
           (''createdAt'', JNum 1576263687643)]"

text \<open>The remote order, without and with a transfer identifier.\<close>

definition wyre_order :: "jsval \<Rightarrow> jsval" where
  "wyre_order transferId =
     JObj [(''id'', JStr ''WO_ELTUVYCAFPG''),
           (''status'', JStr ''PROCESSING''),
           (''transferId'', transferId),
           (''sourceAmount'', JNum 2),
           (''sourceCurrency'', JStr ''USD''),
           (''destCurrency'', JStr ''ETH''),
           (''dest'', JStr ''ethereum:0x9E01'')]"

text \<open>The remote transfer, as the typedef \<open>WyreTransfer\<close> describes it.\<close>

definition wyre_transfer :: jsval where
  "wyre_transfer =
     JObj [(''transferId'', JStr ''TF_MDA6MAY848D''),
           (''feeCurrency'', JStr ''USD''),
           (''fee'', JNum (1 / 4)),
           (''fees'', JObj [(''ETH'', JNum (1 / 20000)), (''USD'', JNum (1 / 4))]),
           (''sourceCurrency'', JStr ''USD''),
           (''destCurrency'', JStr ''ETH''),
           (''sourceAmount'', JNum 2),
           (''destAmount'', JNum (1 / 1000)),
           (''status'', JStr ''COMPLETED''),
           (''blockchainNetworkTx'', JStr ''0xbeef'')]"

text \<open>
  Remote sides: one that answers an order without a transfer, one that answers an
  order with a transfer and then the transfer, one whose order request fails, one
  with an empty body, and one whose transfer request fails.
\<close>

definition api_no_transfer :: wyreAPI where
  "api_no_transfer =
     \<lparr>getOrderStatus = (\<lambda>i. Inr (ok_response (wyre_order JNull))),
      getTransferStatus = (\<lambda>i. Inl (Error ''Network Error'')),
      post = (\<lambda>p. Inl (Error ''Network Error''))\<rparr>"

definition api_with_transfer :: wyreAPI where
  "api_with_transfer =
     \<lparr>getOrderStatus = (\<lambda>i. Inr (ok_response (wyre_order (JStr ''TF_MDA6MAY848D'')))),
      getTransferStatus = (\<lambda>i. Inr (ok_response wyre_transfer)),
      post = (\<lambda>p. Inl (Error ''Network Error''))\<rparr>"

definition api_order_fails :: wyreAPI where
  "api_order_fails =
     \<lparr>getOrderStatus = (\<lambda>i. Inl (Error ''Network Error'')),
      getTransferStatus = (\<lambda>i. Inl (Error ''Network Error'')),
      post = (\<lambda>p. Inl (Error ''Network Error''))\<rparr>"

definition api_empty_body :: wyreAPI where
  "api_empty_body =
     \<lparr>getOrderStatus = (\<lambda>i. Inr (ok_response (JStr []))),
      getTransferStatus = (\<lambda>i. Inl (Error ''Network Error'')),
      post = (\<lambda>p. Inl (Error ''Network Error''))\<rparr>"

definition api_transfer_fails :: wyreAPI where
  "api_transfer_fails =
     \<lparr>getOrderStatus = (\<lambda>i. Inr (ok_response (wyre_order (JStr ''TF_MDA6MAY848D'')))),
      getTransferStatus = (\<lambda>i. Inl (Error ''Network Error'')),
      post = (\<lambda>p. Inl (Error ''Network Error''))\<rparr>"

text \<open>
  Keyrings for the mnemonic helper: two accounts and a controller that rejects a
  missing account; no account and the same controller. The encryptor puts the
  password in front of the text and checks it on the way back.
\<close>

definition strict_signer :: "nat \<Rightarrow> string \<Rightarrow> string option \<Rightarrow> exn + string" where
  "strict_signer t d a =
     (case a of
        None \<Rightarrow> Inl (Error ''No keyring found for the requested account.'')
      | Some addr \<Rightarrow> Inr (''sig:'' @ addr @ '':'' @ d))"

definition engine_one_account :: engine where
  "engine_one_account =
     \<lparr>keyrings = [\<lparr>accounts = []\<rparr>, \<lparr>accounts = [''0x9E01'', ''0x77aa'']\<rparr>],
      signPersonalMessage = strict_signer, byteArrayToHex = (\<lambda>m. ''0x'' @ m)\<rparr>"


definition prefix_encryptor :: encryptor where
  "prefix_encryptor =
     \<lparr>encrypt = (\<lambda>t p x. Inr (p @ x)),
      decrypt = (\<lambda>p c.
        if take (length p) c = p then Inr (drop (length p) c)
        else Inl (Error ''Incorrect password''))\<rparr>"




text \<open>
  The checkout: what the payment sheet hands over on confirmation, a sheet that is
  confirmed and completes, a sheet that the user dismisses, and a remote side that
  answers the submission with a given status and body.
\<close>

definition sheet_details :: jsval where
  "sheet_details =
     JObj [(''billingContact'', JObj
             [(''postalAddress'', JObj
                [(''street'', JStr (''1 Main St'' @ [CHR 0x0A] @ ''Apt 2'')),
                 (''state'', JStr ''CA''),
                 (''country'', JStr ''United States''),
                 (''ISOCountryCode'', JStr ''US''),
                 (''city'', JStr ''San Francisco''),
                 (''postalCode'', JStr ''94105''),
                 (''subAdministrativeArea'', JStr []),
                 (''subLocality'', JStr [])]),
              (''name'', JObj [(''familyName'', JStr ''Doe''), (''givenName'', JStr ''Jane'')])]),
           (''paymentData'', JStr ''encrypted-token''),
           (''paymentMethod'', JObj
             [(''displayName'', JStr ''Visa 2942''), (''network'', JStr ''Visa''),
              (''type'', JStr ''credit'')]),
           (''shippingContact'', JObj
             [(''emailAddress'', JStr ''user@company.com''),
              (''phoneNumber'', JStr ''5550100'')]),
           (''transactionIdentifier'', JStr ''TX01'')]"

definition pay_confirmed :: payments where
  "pay_confirmed =
     \<lparr>partnerId = JStr ''AC_RNWQNRAZFPC'',
      new_PaymentRequest =
        Inr \<lparr>show_sheet = Inr (Some \<lparr>details = sheet_details, complete = (\<lambda>s. None)\<rparr>)\<rparr>\<rparr>"

definition pay_cancelled :: payments where
  "pay_cancelled =
     \<lparr>partnerId = JStr ''AC_RNWQNRAZFPC'',
      new_PaymentRequest = Inr \<lparr>show_sheet = Inl (Error ''AbortError'')\<rparr>\<rparr>"

definition api_answers :: "nat \<Rightarrow> jsval \<Rightarrow> wyreAPI" where
  "api_answers st body =
     \<lparr>getOrderStatus = (\<lambda>i. Inl (Error ''Network Error'')),
      getTransferStatus = (\<lambda>i. Inl (Error ''Network Error'')),
      post = (\<lambda>p. Inr ((ok_response body)\<lparr>status := st\<rparr>))\<rparr>"

definition wyre_error :: jsval where
  "wyre_error =
     JObj [(''exceptionId'', JStr ''BA7GRH''),
           (''type'', JStr ''ValidationException''),
           (''errorCode'', JStr ''validation.invalidValue''),
           (''message'', JStr ''Amount is below the minimum''),
           (''language'', JStr ''en''),
           (''transient'', JBool False)]"

text \<open>The payload that \<open>createPayload\<close> builds from \<open>sheet_details\<close> for 2 USD.\<close>

definition checkout_payload :: jsval where
  "checkout_payload =
     JObj [(''partnerId'', JStr ''AC_RNWQNRAZFPC''),
       (''payload'', JObj
         [(''orderRequest'', JObj
            [(''amount'', JNum 2),
             (''dest'', JStr ''ethereum:0x9E01''),
             (''destCurrency'', JStr ''ETH''),
             (''referrerAccountId'', JStr ''AC_RNWQNRAZFPC''),
             (''sourceCurrency'', JStr ''USD'')]),
          (''paymentObject'', JObj
            [(''billingContact'', JObj
               [(''addressLines'', JArr [JStr ''1 Main St'', JStr ''Apt 2'']),
                (''administrativeArea'', JStr ''CA''),
                (''country'', JStr ''United States''),
                (''countryCode'', JStr ''US''),
                (''familyName'', JStr ''Doe''),
                (''givenName'', JStr ''Jane''),
                (''locality'', JStr ''San Francisco''),
                (''postalCode'', JStr ''94105''),
                (''subAdministrativeArea'', JStr []),
                (''subLocality'', JStr [])]),
             (''shippingContact'', JObj
               [(''addressLines'', JArr [JStr ''1 Main St'', JStr ''Apt 2'']),
                (''administrativeArea'', JStr ''CA''),
                (''country'', JStr ''United States''),
                (''countryCode'', JStr ''US''),
                (''familyName'', JStr ''Doe''),
                (''givenName'', JStr ''Jane''),
                (''locality'', JStr ''San Francisco''),
                (''postalCode'', JStr ''94105''),
                (''subAdministrativeArea'', JStr []),
                (''subLocality'', JStr []),
                (''emailAddress'', JStr ''user@company.com''),
                (''phoneNumber'', JStr ''5550100'')]),
             (''token'', JObj
               [(''paymentData'', JStr ''encrypted-token''),
                (''paymentMethod'', JObj
                  [(''displayName'', JStr ''Visa 2942''), (''network'', JStr ''Visa''),
                   (''type'', JStr ''debit'')]),
                (''transactionIdentifier'', JStr ''TX01'')])])])]"

section \<open>Basic facts\<close>

lemma bind_exn_Inr [simp]: "bind_exn (Inr x) f = f x"
  by (simp add: bind_exn_def)

lemma bind_exn_Inl [simp]: "bind_exn (Inl e) f = Inl e"
  by (simp add: bind_exn_def)

section \<open>Address normalisation\<close>

lemma index_from_range: "index_from s pat i = - 1 \<or> int i \<le> index_from s pat i"
  by (induction s arbitrary: i) (auto, force)

lemma index_from_start:
  "index_from s pat i = int i \<longleftrightarrow> take (length pat) s = pat"
proof (cases s)
  case Nil
  then show ?thesis by auto
next
  case (Cons c cs)
  show ?thesis
  proof (cases "take (length pat) (c # cs) = pat")
    case True
    then show ?thesis using Cons by simp
  next
    case False
    have "index_from cs pat (Suc i) \<noteq> int i"
      using index_from_range [of cs pat "Suc i"] by auto
    then show ?thesis using Cons False by simp
  qed
qed

lemma indexOf_zero: "indexOf s pat = 0 \<longleftrightarrow> take (length pat) s = pat"
  using index_from_start [of s pat 0] by (simp add: indexOf_def)

text \<open>
  C8: on a destination string, \<open>destToAddress\<close> removes the prefix \<open>ethereum:\<close> when the
  string begins with it and returns what follows; a string that does not begin with
  the prefix is returned as it is.
\<close>

theorem destToAddress_strips_prefix:
  "destToAddress (JStr (''ethereum:'' @ r)) = Inr (JStr r) \<and>
   (take 9 s \<noteq> ''ethereum:'' \<longrightarrow> destToAddress (JStr s) = Inr (JStr s))"
proof -
  have len: "length ''ethereum:'' = 9" by simp
  have at0: "\<And>t. indexOf t ''ethereum:'' = 0 \<longleftrightarrow> take 9 t = ''ethereum:''"
    using indexOf_zero [of _ "''ethereum:''"] unfolding len .
  have "take 9 (''ethereum:'' @ r) = ''ethereum:''" by simp
  then have a: "destToAddress (JStr (''ethereum:'' @ r)) = Inr (JStr r)"
    by (simp only: destToAddress.simps at0 substring_def) simp
  have b: "take 9 s \<noteq> ''ethereum:'' \<longrightarrow> destToAddress (JStr s) = Inr (JStr s)"
    by (simp only: destToAddress.simps at0) simp
  from a b show ?thesis by blast
qed

theorem destToAddress_strips_prefix_witness:
  "destToAddress (JStr ''ethereum:0xABC'') = Inr (JStr ''0xABC'') \<and>
   take 9 ''0xABC'' \<noteq> ''ethereum:'' \<and> destToAddress (JStr ''0xABC'') = Inr (JStr ''0xABC'')"
  using destToAddress_strips_prefix [of "''0xABC''" "''0xABC''"] by simp

section \<open>The status mapping\<close>

text \<open>
  C2: \<open>wyreOrderStateToFiatState\<close> returns a state for every value it is given:
  \<open>COMPLETED\<close> for \<open>COMPLETE\<close>, \<open>CANCELLED\<close> for \<open>FAILED\<close>, and \<open>PENDING\<close> for every other
  value, \<open>RUNNING_CHECKS\<close> and \<open>PROCESSING\<close> among them.
\<close>

theorem wyreOrderStateToFiatState_total_exact:
  "wyreOrderStateToFiatState F v =
     (if v = JStr ''COMPLETE'' then COMPLETED F
      else if v = JStr ''FAILED'' then CANCELLED F
      else PENDING F) \<and>
   wyreOrderStateToFiatState F (JStr ''RUNNING_CHECKS'') = PENDING F \<and>
   wyreOrderStateToFiatState F (JStr ''PROCESSING'') = PENDING F"
  by (simp add: wyreOrderStateToFiatState_def WYRE_ORDER_STATES_COMPLETE_def
      WYRE_ORDER_STATES_FAILED_def)

section \<open>Reconciliation\<close>

lemma map_of_set_prop [simp]: "map_of (set_prop ps k v) = (map_of ps)(k \<mapsto> v)"
  by (induction ps k v rule: set_prop.induct) auto

lemma bind_exn_eq_Inr:
  "bind_exn m f = Inr y \<longleftrightarrow> (\<exists>x. m = Inr x \<and> f x = Inr y)"
  by (cases m) simp_all

lemma wyreOrderToFiatOrder_Inr:
  assumes "wyreOrderToFiatOrder F d = Inr fo"
  shows "\<exists>oid amt cur cc st dest acct.
           member d ''status'' = Inr st \<and> member d ''dest'' = Inr dest \<and>
           destToAddress dest = Inr acct \<and>
           member d ''id'' = Inr oid \<and> member d ''sourceAmount'' = Inr amt \<and>
           member d ''sourceCurrency'' = Inr cur \<and> member d ''destCurrency'' = Inr cc \<and>
           fo = [(''id'', oid), (''provider'', WYRE_APPLE_PAY F), (''amount'', amt),
                 (''fee'', JNull), (''cryptoAmount'', JNull), (''cryptoFee'', JNull),
                 (''currency'', cur), (''cryptocurrency'', cc),
                 (''state'', wyreOrderStateToFiatState F st), (''account'', acct),
                 (''txHash'', JNull), (''data'', JObj [(''order'', d)])]"
  using assms unfolding wyreOrderToFiatOrder_def bind_exn_eq_Inr by blast

lemma wyreTransferToFiatOrder_Inr:
  assumes "wyreTransferToFiatOrder rt t = Inr ft"
  shows "\<exists>a b c d. ft = [(''fee'', a), (''cryptoAmount'', b), (''cryptoFee'', c), (''txHash'', d)]"
  using assms unfolding wyreTransferToFiatOrder_def bind_exn_eq_Inr by blast

lemma field_JObj [simp]: "field (JObj ps) k = map_of ps k"
  by (simp add: field_def)

lemma try_cases:
  assumes "processWyreApplePayOrder rt F api order \<noteq> order"
  shows "\<exists>oid r transferId fo.
           member order ''id'' = Inr oid \<and> getOrderStatus api oid = Inr r \<and>
           truthy (data r) \<and> member (data r) ''transferId'' = Inr transferId \<and>
           wyreOrderToFiatOrder F (data r) = Inr fo \<and>
           (if truthy transferId then
              \<exists>tr ft. getTransferStatus api transferId = Inr tr \<and>
                wyreTransferToFiatOrder rt (response_object tr) = Inr ft \<and>
                processWyreApplePayOrder rt F api order =
                  JObj (set_prop (spread (spread (own_props order) fo) ft) ''data''
                          (JObj [(''order'', data r), (''transfer'', response_object tr)]))
            else processWyreApplePayOrder rt F api order = JObj (spread (own_props order) fo))"
proof -
  obtain res where res: "processWyreApplePayOrder_try rt F api order = Inr res"
    and eq: "processWyreApplePayOrder rt F api order = res"
    using assms by (cases "processWyreApplePayOrder_try rt F api order")
      (simp_all add: processWyreApplePayOrder_def)
  from res obtain oid r where oid: "member order ''id'' = Inr oid"
    and r: "getOrderStatus api oid = Inr r"
    and rest: "(let d = data r in
       if \<not> truthy d then Inr order
       else
         bind_exn (member d ''transferId'') (\<lambda>transferId.
           if truthy transferId then
             bind_exn (getTransferStatus api transferId) (\<lambda>tr.
               let transfer = response_object tr in
               bind_exn (wyreOrderToFiatOrder F d) (\<lambda>fo.
               bind_exn (wyreTransferToFiatOrder rt transfer) (\<lambda>ft.
                 Inr (JObj (set_prop (spread (spread (own_props order) fo) ft) ''data''
                              (JObj [(''order'', d), (''transfer'', transfer)]))))))
           else
             bind_exn (wyreOrderToFiatOrder F d) (\<lambda>fo.
               Inr (JObj (spread (own_props order) fo))))) = Inr res"
    unfolding processWyreApplePayOrder_try_def bind_exn_eq_Inr by blast
  have t: "truthy (data r)"
  proof (rule ccontr)
    assume "\<not> truthy (data r)"
    with rest have "res = order" by simp
    with eq assms show False by simp
  qed
  with rest obtain transferId where tid: "member (data r) ''transferId'' = Inr transferId"
    and rest2: "(if truthy transferId then
             bind_exn (getTransferStatus api transferId) (\<lambda>tr.
               let transfer = response_object tr in
               bind_exn (wyreOrderToFiatOrder F (data r)) (\<lambda>fo.
               bind_exn (wyreTransferToFiatOrder rt transfer) (\<lambda>ft.
                 Inr (JObj (set_prop (spread (spread (own_props order) fo) ft) ''data''
                              (JObj [(''order'', data r), (''transfer'', transfer)]))))))
           else
             bind_exn (wyreOrderToFiatOrder F (data r)) (\<lambda>fo.
               Inr (JObj (spread (own_props order) fo)))) = Inr res"
    by (auto simp: Let_def bind_exn_eq_Inr)
  show ?thesis
  proof (cases "truthy transferId")
    case True
    with rest2 obtain tr fo ft where "getTransferStatus api transferId = Inr tr"
      "wyreOrderToFiatOrder F (data r) = Inr fo"
      "wyreTransferToFiatOrder rt (response_object tr) = Inr ft"
      "res = JObj (set_prop (spread (spread (own_props order) fo) ft) ''data''
                              (JObj [(''order'', data r), (''transfer'', response_object tr)]))"
      by (auto simp: Let_def bind_exn_eq_Inr)
    with oid r t tid True eq show ?thesis by auto
  next
    case False
    with rest2 obtain fo where "wyreOrderToFiatOrder F (data r) = Inr fo"
      "res = JObj (spread (own_props order) fo)"
      by (auto simp: bind_exn_eq_Inr)
    with oid r t tid False eq show ?thesis by auto
  qed
qed


lemma member_truthy: "truthy d \<Longrightarrow> member d k = Inr (read d k)"
  by (cases d) (simp_all add: read_def)

lemma wyreTransferToFiatOrder_response:
  "wyreTransferToFiatOrder rt (response_object tr) =
     Inr [(''fee'', JUndefined), (''cryptoAmount'', JUndefined),
          (''cryptoFee'', JNull), (''txHash'', JUndefined)]"
  by (simp add: wyreTransferToFiatOrder_def response_object_def)

text \<open>
  C1: when the order request throws, when its response has an empty or absent body,
  or when the order carries a transfer identifier and the transfer request throws,
  \<open>processWyreApplePayOrder\<close> returns the order it was given, and throws nothing.
\<close>

theorem processWyreApplePayOrder_noop_on_failure:
  "(member order ''id'' = Inr oid \<and> getOrderStatus api oid = Inl e
      \<longrightarrow> processWyreApplePayOrder rt F api order = order) \<and>
   (member order ''id'' = Inr oid \<and> getOrderStatus api oid = Inr r \<and> \<not> truthy (data r)
      \<longrightarrow> processWyreApplePayOrder rt F api order = order) \<and>
   (member order ''id'' = Inr oid \<and> getOrderStatus api oid = Inr r \<and> truthy (data r) \<and>
    member (data r) ''transferId'' = Inr transferId \<and> truthy transferId \<and>
    getTransferStatus api transferId = Inl e'
      \<longrightarrow> processWyreApplePayOrder rt F api order = order)"
  by (simp add: processWyreApplePayOrder_def processWyreApplePayOrder_try_def)

theorem processWyreApplePayOrder_noop_on_failure_witness:
  "getOrderStatus api_order_fails (JStr ''WO_ELTUVYCAFPG'') = Inl (Error ''Network Error'') \<and>
   processWyreApplePayOrder plain_runtime fiat_orders api_order_fails stored_order
     = stored_order \<and>
   data (ok_response (JStr [])) = JStr [] \<and>
   processWyreApplePayOrder plain_runtime fiat_orders api_empty_body stored_order
     = stored_order \<and>
   getTransferStatus api_transfer_fails (JStr ''TF_MDA6MAY848D'') = Inl (Error ''Network Error'') \<and>
   processWyreApplePayOrder plain_runtime fiat_orders api_transfer_fails stored_order
     = stored_order"
proof -
  have oid: "member stored_order ''id'' = Inr (JStr ''WO_ELTUVYCAFPG'')"
    by (simp add: stored_order_def)
  have a: "getOrderStatus api_order_fails (JStr ''WO_ELTUVYCAFPG'') = Inl (Error ''Network Error'')"
    by (simp add: api_order_fails_def)
  have b: "getOrderStatus api_empty_body (JStr ''WO_ELTUVYCAFPG'') = Inr (ok_response (JStr []))"
    "data (ok_response (JStr [])) = JStr []" "\<not> truthy (data (ok_response (JStr [])))"
    by (simp_all add: api_empty_body_def ok_response_def)
  have c: "getOrderStatus api_transfer_fails (JStr ''WO_ELTUVYCAFPG'')
             = Inr (ok_response (wyre_order (JStr ''TF_MDA6MAY848D'')))"
    "truthy (data (ok_response (wyre_order (JStr ''TF_MDA6MAY848D''))))"
    "member (data (ok_response (wyre_order (JStr ''TF_MDA6MAY848D'')))) ''transferId''
       = Inr (JStr ''TF_MDA6MAY848D'')"
    "truthy (JStr ''TF_MDA6MAY848D'')"
    "getTransferStatus api_transfer_fails (JStr ''TF_MDA6MAY848D'') = Inl (Error ''Network Error'')"
    by (simp_all add: api_transfer_fails_def ok_response_def wyre_order_def)
  note t1 = processWyreApplePayOrder_noop_on_failure
    [of stored_order "JStr ''WO_ELTUVYCAFPG''" api_order_fails "Error ''Network Error''"
        plain_runtime fiat_orders]
  note t2 = processWyreApplePayOrder_noop_on_failure
    [of stored_order "JStr ''WO_ELTUVYCAFPG''" api_empty_body _
        plain_runtime fiat_orders "ok_response (JStr [])"]
  note t3 = processWyreApplePayOrder_noop_on_failure
    [of stored_order "JStr ''WO_ELTUVYCAFPG''" api_transfer_fails _
        plain_runtime fiat_orders "ok_response (wyre_order (JStr ''TF_MDA6MAY848D''))"
        "JStr ''TF_MDA6MAY848D''" "Error ''Network Error''"]
  from t1 oid a
  have r1: "processWyreApplePayOrder plain_runtime fiat_orders api_order_fails stored_order
     = stored_order" by blast
  from t2 oid b
  have r2: "processWyreApplePayOrder plain_runtime fiat_orders api_empty_body stored_order
     = stored_order" by blast
  from t3 oid c
  have r3: "processWyreApplePayOrder plain_runtime fiat_orders api_transfer_fails stored_order
     = stored_order" by blast
  from a b(2) c(5) r1 r2 r3 show ?thesis by blast
qed

text \<open>
  C3, evaluated where the claim fails: the remote order carries a transfer
  identifier and the transfer request answers with a transfer whose fee, destination
  amount, fee in the destination currency and transaction hash are all set. The
  returned record has \<open>undefined\<close> for \<open>fee\<close>, \<open>cryptoAmount\<close> and \<open>txHash\<close> and \<open>null\<close> for
  \<open>cryptoFee\<close>: \<open>wyreTransferToFiatOrder\<close> is given the response, not its body.
\<close>

theorem transfer_fields_not_taken_from_transfer:
  "read (data (ok_response wyre_transfer)) ''fee'' = JNum (1 / 4) \<and>
   read (data (ok_response wyre_transfer)) ''destAmount'' = JNum (1 / 1000) \<and>
   read (read (data (ok_response wyre_transfer)) ''fees'') ''ETH'' = JNum (1 / 20000) \<and>
   read (data (ok_response wyre_transfer)) ''blockchainNetworkTx'' = JStr ''0xbeef'' \<and>
   field (processWyreApplePayOrder rt F api_with_transfer stored_order) ''fee''
     = Some JUndefined \<and>
   field (processWyreApplePayOrder rt F api_with_transfer stored_order) ''cryptoAmount''
     = Some JUndefined \<and>
   field (processWyreApplePayOrder rt F api_with_transfer stored_order) ''cryptoFee''
     = Some JNull \<and>
   field (processWyreApplePayOrder rt F api_with_transfer stored_order) ''txHash''
     = Some JUndefined"
proof -
  have body: "read (data (ok_response wyre_transfer)) ''fee'' = JNum (1 / 4)"
    "read (data (ok_response wyre_transfer)) ''destAmount'' = JNum (1 / 1000)"
    "read (read (data (ok_response wyre_transfer)) ''fees'') ''ETH'' = JNum (1 / 20000)"
    "read (data (ok_response wyre_transfer)) ''blockchainNetworkTx'' = JStr ''0xbeef''"
    by (simp_all add: ok_response_def wyre_transfer_def read_def)
  obtain fo where fo: "wyreOrderToFiatOrder F (wyre_order (JStr ''TF_MDA6MAY848D'')) = Inr fo"
    and keys: "map fst fo = [''id'', ''provider'', ''amount'', ''fee'', ''cryptoAmount'',
       ''cryptoFee'', ''currency'', ''cryptocurrency'', ''state'', ''account'', ''txHash'', ''data'']"
    by (simp add: wyreOrderToFiatOrder_def wyre_order_def indexOf_def)
  have res: "processWyreApplePayOrder rt F api_with_transfer stored_order =
     JObj (set_prop (spread (spread (own_props stored_order) fo)
        [(''fee'', JUndefined), (''cryptoAmount'', JUndefined),
          (''cryptoFee'', JNull), (''txHash'', JUndefined)]) ''data''
        (JObj [(''order'', wyre_order (JStr ''TF_MDA6MAY848D'')),
               (''transfer'', response_object (ok_response wyre_transfer))]))"
    using fo
    by (simp add: processWyreApplePayOrder_def processWyreApplePayOrder_try_def
        api_with_transfer_def wyreTransferToFiatOrder_response stored_order_def
        ok_response_def wyre_order_def)
  have "field (processWyreApplePayOrder rt F api_with_transfer stored_order) ''fee''
     = Some JUndefined"
    "field (processWyreApplePayOrder rt F api_with_transfer stored_order) ''cryptoAmount''
     = Some JUndefined"
    "field (processWyreApplePayOrder rt F api_with_transfer stored_order) ''cryptoFee''
     = Some JNull"
    "field (processWyreApplePayOrder rt F api_with_transfer stored_order) ''txHash''
     = Some JUndefined"
    unfolding res by (simp_all add: spread_def)
  with body show ?thesis by simp
qed

text \<open>
  C5: whenever \<open>processWyreApplePayOrder\<close> returns something other than the order
  it was given, the \<open>state\<close> of what it returns is \<open>wyreOrderStateToFiatState\<close> of the
  status of the remote order; this holds with and without a transfer, whatever the
  transfer request answered.
\<close>

theorem processWyreApplePayOrder_state_from_status:
  assumes "processWyreApplePayOrder rt F api order \<noteq> order"
  shows "(\<exists>oid r st.
           member order ''id'' = Inr oid \<and> getOrderStatus api oid = Inr r \<and>
           member (data r) ''status'' = Inr st \<and>
           field (processWyreApplePayOrder rt F api order) ''state''
             = Some (wyreOrderStateToFiatState F st)) \<and>
         (\<forall>tr ft. wyreTransferToFiatOrder rt tr = Inr ft \<longrightarrow> map_of ft ''state'' = None)"
proof -
  have overlay: "map_of ft ''state'' = None" if "wyreTransferToFiatOrder rt tr = Inr ft" for tr ft
    using wyreTransferToFiatOrder_Inr [OF that] by auto
  from try_cases [OF assms] obtain oid r transferId fo where
    oid: "member order ''id'' = Inr oid" and r: "getOrderStatus api oid = Inr r"
    and fo: "wyreOrderToFiatOrder F (data r) = Inr fo"
    and res: "if truthy transferId then
              \<exists>tr ft. getTransferStatus api transferId = Inr tr \<and>
                wyreTransferToFiatOrder rt (response_object tr) = Inr ft \<and>
                processWyreApplePayOrder rt F api order =
                  JObj (set_prop (spread (spread (own_props order) fo) ft) ''data''
                          (JObj [(''order'', data r), (''transfer'', response_object tr)]))
            else processWyreApplePayOrder rt F api order = JObj (spread (own_props order) fo)"
    by blast
  from wyreOrderToFiatOrder_Inr [OF fo] obtain oid' amt cur cc st dest acct where
    st: "member (data r) ''status'' = Inr st"
    and "member (data r) ''dest'' = Inr dest"
    and fo_eq: "fo = [(''id'', oid'), (''provider'', WYRE_APPLE_PAY F), (''amount'', amt),
                 (''fee'', JNull), (''cryptoAmount'', JNull), (''cryptoFee'', JNull),
                 (''currency'', cur), (''cryptocurrency'', cc),
                 (''state'', wyreOrderStateToFiatState F st), (''account'', acct),
                 (''txHash'', JNull), (''data'', JObj [(''order'', data r)])]"
    by blast
  have "field (processWyreApplePayOrder rt F api order) ''state''
             = Some (wyreOrderStateToFiatState F st)"
  proof (cases "truthy transferId")
    case True
    with res obtain tr ft where
      ft: "wyreTransferToFiatOrder rt (response_object tr) = Inr ft"
      and eq: "processWyreApplePayOrder rt F api order =
                  JObj (set_prop (spread (spread (own_props order) fo) ft) ''data''
                          (JObj [(''order'', data r), (''transfer'', response_object tr)]))"
      by auto
    from wyreTransferToFiatOrder_Inr [OF ft] obtain a b c d where
      "ft = [(''fee'', a), (''cryptoAmount'', b), (''cryptoFee'', c), (''txHash'', d)]"
      by blast
    with eq fo_eq show ?thesis by (simp add: spread_def)
  next
    case False
    with res fo_eq show ?thesis by (simp add: spread_def)
  qed
  with oid r st overlay show ?thesis by blast
qed

theorem processWyreApplePayOrder_state_from_status_witness:
  "processWyreApplePayOrder plain_runtime fiat_orders api_with_transfer stored_order
     \<noteq> stored_order \<and>
   field (processWyreApplePayOrder plain_runtime fiat_orders api_with_transfer stored_order)
     ''state'' = Some (wyreOrderStateToFiatState fiat_orders (JStr ''PROCESSING'')) \<and>
   wyreTransferToFiatOrder plain_runtime (response_object (ok_response wyre_transfer)) =
     Inr [(''fee'', JUndefined), (''cryptoAmount'', JUndefined),
          (''cryptoFee'', JNull), (''txHash'', JUndefined)] \<and>
   map_of [(''fee'', JUndefined), (''cryptoAmount'', JUndefined),
           (''cryptoFee'', JNull), (''txHash'', JUndefined)] ''state'' = None"
proof -
  have ne: "processWyreApplePayOrder plain_runtime fiat_orders api_with_transfer stored_order
     \<noteq> stored_order"
    by (simp add: processWyreApplePayOrder_def processWyreApplePayOrder_try_def
        api_with_transfer_def wyreTransferToFiatOrder_response wyreOrderToFiatOrder_def
        stored_order_def ok_response_def wyre_order_def indexOf_def spread_def)
  note inst = processWyreApplePayOrder_state_from_status [OF ne]
  from inst [THEN conjunct1]
  obtain oid r st where "member stored_order ''id'' = Inr oid"
    and "getOrderStatus api_with_transfer oid = Inr r"
    and "member (data r) ''status'' = Inr st"
    and s: "field (processWyreApplePayOrder plain_runtime fiat_orders api_with_transfer
          stored_order) ''state'' = Some (wyreOrderStateToFiatState fiat_orders st)"
    by blast
  then have st: "st = JStr ''PROCESSING''"
    by (auto simp: api_with_transfer_def ok_response_def wyre_order_def)
  have ov: "wyreTransferToFiatOrder plain_runtime (response_object (ok_response wyre_transfer)) =
     Inr [(''fee'', JUndefined), (''cryptoAmount'', JUndefined),
          (''cryptoFee'', JNull), (''txHash'', JUndefined)]"
    by (rule wyreTransferToFiatOrder_response)
  from inst [THEN conjunct2] ov
  have "map_of [(''fee'', JUndefined), (''cryptoAmount'', JUndefined),
           (''cryptoFee'', JNull), (''txHash'', JUndefined)] ''state'' = None"
    by blast
  with ne s st ov show ?thesis by simp
qed

lemma wyreOrderToFiatOrder_truthy:
  assumes "truthy d"
  shows "wyreOrderToFiatOrder F d =
     (case destToAddress (read d ''dest'') of
        Inl e \<Rightarrow> Inl e
      | Inr account \<Rightarrow>
          Inr [(''id'', read d ''id''),
               (''provider'', WYRE_APPLE_PAY F),
               (''amount'', read d ''sourceAmount''),
               (''fee'', JNull),
               (''cryptoAmount'', JNull),
               (''cryptoFee'', JNull),
               (''currency'', read d ''sourceCurrency''),
               (''cryptocurrency'', read d ''destCurrency''),
               (''state'', wyreOrderStateToFiatState F (read d ''status'')),
               (''account'', account),
               (''txHash'', JNull),
               (''data'', JObj [(''order'', d)])])"
  by (simp add: wyreOrderToFiatOrder_def member_truthy [OF assms] bind_exn_def)

lemma without_transfer_result:
  assumes "member order ''id'' = Inr oid" and "getOrderStatus api oid = Inr r"
    and "truthy (data r)" and "\<not> truthy (read (data r) ''transferId'')"
  shows "processWyreApplePayOrder rt F api order =
     (case wyreOrderToFiatOrder F (data r) of
        Inl e \<Rightarrow> order
      | Inr fo \<Rightarrow> JObj (spread (own_props order) fo))"
  using assms
  by (simp add: processWyreApplePayOrder_def processWyreApplePayOrder_try_def
      member_truthy bind_exn_def split: sum.splits)

text \<open>
  C4, as the code has it: when the remote order carries no transfer identifier and
  its destination can be normalised, the returned record has the twelve fields of
  \<open>wyreOrderToFiatOrder\<close>: \<open>id\<close>, \<open>provider\<close>, \<open>amount\<close>, \<open>currency\<close>, \<open>cryptocurrency\<close>,
  \<open>state\<close>, \<open>account\<close> and \<open>data\<close> from the remote order, and \<open>fee\<close>, \<open>cryptoAmount\<close>,
  \<open>cryptoFee\<close> and \<open>txHash\<close> set to \<open>null\<close>; every other field of the order it was given
  is unchanged. When the destination cannot be normalised the order is returned as
  it was given.
\<close>

theorem processWyreApplePayOrder_without_transfer:
  assumes "member order ''id'' = Inr oid" and "getOrderStatus api oid = Inr r"
    and "truthy (data r)" and "\<not> truthy (read (data r) ''transferId'')"
  shows
    "(\<forall>e. destToAddress (read (data r) ''dest'') = Inl e \<longrightarrow>
        processWyreApplePayOrder rt F api order = order) \<and>
     (\<forall>account. destToAddress (read (data r) ''dest'') = Inr account \<longrightarrow>
        field (processWyreApplePayOrder rt F api order) ''id'' = Some (read (data r) ''id'') \<and>
        field (processWyreApplePayOrder rt F api order) ''provider'' = Some (WYRE_APPLE_PAY F) \<and>
        field (processWyreApplePayOrder rt F api order) ''amount''
          = Some (read (data r) ''sourceAmount'') \<and>
        field (processWyreApplePayOrder rt F api order) ''fee'' = Some JNull \<and>
        field (processWyreApplePayOrder rt F api order) ''cryptoAmount'' = Some JNull \<and>
        field (processWyreApplePayOrder rt F api order) ''cryptoFee'' = Some JNull \<and>
        field (processWyreApplePayOrder rt F api order) ''currency''
          = Some (read (data r) ''sourceCurrency'') \<and>
        field (processWyreApplePayOrder rt F api order) ''cryptocurrency''
          = Some (read (data r) ''destCurrency'') \<and>
        field (processWyreApplePayOrder rt F api order) ''state''
          = Some (wyreOrderStateToFiatState F (read (data r) ''status'')) \<and>
        field (processWyreApplePayOrder rt F api order) ''account'' = Some account \<and>
        field (processWyreApplePayOrder rt F api order) ''txHash'' = Some JNull \<and>
        field (processWyreApplePayOrder rt F api order) ''data''
          = Some (JObj [(''order'', data r)]) \<and>
        (\<forall>k. k \<notin> {''id'', ''provider'', ''amount'', ''fee'', ''cryptoAmount'', ''cryptoFee'',
                   ''currency'', ''cryptocurrency'', ''state'', ''account'', ''txHash'', ''data''}
           \<longrightarrow> field (processWyreApplePayOrder rt F api order) k = field order k))"
proof -
  note res = without_transfer_result [OF assms, of rt F]
  note fo = wyreOrderToFiatOrder_truthy [OF assms(3), of F]
  have a: "\<forall>e. destToAddress (read (data r) ''dest'') = Inl e \<longrightarrow>
        processWyreApplePayOrder rt F api order = order"
    by (simp add: res fo)
  have b: "\<forall>account. destToAddress (read (data r) ''dest'') = Inr account \<longrightarrow>
        field (processWyreApplePayOrder rt F api order) ''id'' = Some (read (data r) ''id'') \<and>
        field (processWyreApplePayOrder rt F api order) ''provider'' = Some (WYRE_APPLE_PAY F) \<and>
        field (processWyreApplePayOrder rt F api order) ''amount''
          = Some (read (data r) ''sourceAmount'') \<and>
        field (processWyreApplePayOrder rt F api order) ''fee'' = Some JNull \<and>
        field (processWyreApplePayOrder rt F api order) ''cryptoAmount'' = Some JNull \<and>
        field (processWyreApplePayOrder rt F api order) ''cryptoFee'' = Some JNull \<and>
        field (processWyreApplePayOrder rt F api order) ''currency''
          = Some (read (data r) ''sourceCurrency'') \<and>
        field (processWyreApplePayOrder rt F api order) ''cryptocurrency''
          = Some (read (data r) ''destCurrency'') \<and>
        field (processWyreApplePayOrder rt F api order) ''state''
          = Some (wyreOrderStateToFiatState F (read (data r) ''status'')) \<and>
        field (processWyreApplePayOrder rt F api order) ''account'' = Some account \<and>
        field (processWyreApplePayOrder rt F api order) ''txHash'' = Some JNull \<and>
        field (processWyreApplePayOrder rt F api order) ''data''
          = Some (JObj [(''order'', data r)]) \<and>
        (\<forall>k. k \<notin> {''id'', ''provider'', ''amount'', ''fee'', ''cryptoAmount'', ''cryptoFee'',
                   ''currency'', ''cryptocurrency'', ''state'', ''account'', ''txHash'', ''data''}
           \<longrightarrow> field (processWyreApplePayOrder rt F api order) k = field order k)"
    by (simp add: res fo spread_def field_def)
  from a b show ?thesis by blast
qed

theorem processWyreApplePayOrder_without_transfer_witness:
  "member stored_order ''id'' = Inr (JStr ''WO_ELTUVYCAFPG'') \<and>
   getOrderStatus api_no_transfer (JStr ''WO_ELTUVYCAFPG'') = Inr (ok_response (wyre_order JNull)) \<and>
   truthy (data (ok_response (wyre_order JNull))) \<and>
   \<not> truthy (read (data (ok_response (wyre_order JNull))) ''transferId'') \<and>
   destToAddress (read (data (ok_response (wyre_order JNull))) ''dest'') = Inr (JStr ''0x9E01'') \<and>
   field (processWyreApplePayOrder plain_runtime fiat_orders api_no_transfer stored_order) ''fee''
     = Some JNull \<and>
   field (processWyreApplePayOrder plain_runtime fiat_orders api_no_transfer stored_order) ''account''
     = Some (JStr ''0x9E01'') \<and>
   field (processWyreApplePayOrder plain_runtime fiat_orders api_no_transfer stored_order) ''network''
     = Some (JStr ''1'')"
proof -
  have h: "member stored_order ''id'' = Inr (JStr ''WO_ELTUVYCAFPG'')"
    "getOrderStatus api_no_transfer (JStr ''WO_ELTUVYCAFPG'') = Inr (ok_response (wyre_order JNull))"
    "truthy (data (ok_response (wyre_order JNull)))"
    "\<not> truthy (read (data (ok_response (wyre_order JNull))) ''transferId'')"
    by (simp_all add: stored_order_def api_no_transfer_def ok_response_def wyre_order_def read_def)
  have d: "destToAddress (read (data (ok_response (wyre_order JNull))) ''dest'') = Inr (JStr ''0x9E01'')"
    by (simp add: ok_response_def wyre_order_def read_def indexOf_def substring_def)
  have n: "field stored_order ''network'' = Some (JStr ''1'')"
    by (simp add: stored_order_def)
  from processWyreApplePayOrder_without_transfer [OF h, of plain_runtime fiat_orders] d n
  have "field (processWyreApplePayOrder plain_runtime fiat_orders api_no_transfer stored_order) ''fee''
     = Some JNull"
   "field (processWyreApplePayOrder plain_runtime fiat_orders api_no_transfer stored_order) ''account''
     = Some (JStr ''0x9E01'')"
   "field (processWyreApplePayOrder plain_runtime fiat_orders api_no_transfer stored_order) ''network''
     = Some (JStr ''1'')"
    by simp_all
  with h d show ?thesis by simp
qed

text \<open>
  The claim C4 as it was stated fails on an order that has a fee, a crypto amount, a
  crypto fee and a transaction hash: without a transfer identifier the four fields
  come back as \<open>null\<close>.
\<close>

theorem without_transfer_fee_reset_counterexample:
  "read (data (ok_response (wyre_order JNull))) ''transferId'' = JNull \<and>
   getOrderStatus api_no_transfer (read stored_order ''id'') = Inr (ok_response (wyre_order JNull)) \<and>
   field stored_order ''fee'' = Some (JNum (1 / 2)) \<and>
   field (processWyreApplePayOrder plain_runtime fiat_orders api_no_transfer stored_order) ''fee''
     = Some JNull \<and>
   field stored_order ''cryptoAmount'' = Some (JNum (1 / 500)) \<and>
   field (processWyreApplePayOrder plain_runtime fiat_orders api_no_transfer stored_order)
     ''cryptoAmount'' = Some JNull \<and>
   field stored_order ''cryptoFee'' = Some (JNum (1 / 10000)) \<and>
   field (processWyreApplePayOrder plain_runtime fiat_orders api_no_transfer stored_order)
     ''cryptoFee'' = Some JNull \<and>
   field stored_order ''txHash'' = Some (JStr ''0xfeed'') \<and>
   field (processWyreApplePayOrder plain_runtime fiat_orders api_no_transfer stored_order)
     ''txHash'' = Some JNull"
proof -
  have res: "processWyreApplePayOrder plain_runtime fiat_orders api_no_transfer stored_order =
    JObj (spread (own_props stored_order)
          [(''id'', JStr ''WO_ELTUVYCAFPG''),
               (''provider'', JStr ''WYRE_APPLE_PAY''),
               (''amount'', JNum 2),
               (''fee'', JNull),
               (''cryptoAmount'', JNull),
               (''cryptoFee'', JNull),
               (''currency'', JStr ''USD''),
               (''cryptocurrency'', JStr ''ETH''),
               (''state'', JStr ''PENDING''),
               (''account'', JStr ''0x9E01''),
               (''txHash'', JNull),
               (''data'', JObj [(''order'', wyre_order JNull)])])"
    by (simp add: processWyreApplePayOrder_def processWyreApplePayOrder_try_def
        api_no_transfer_def wyreOrderToFiatOrder_def wyreOrderStateToFiatState_def
        WYRE_ORDER_STATES_COMPLETE_def WYRE_ORDER_STATES_FAILED_def fiat_orders_def
        stored_order_def ok_response_def wyre_order_def indexOf_def substring_def)
  have before: "field stored_order ''fee'' = Some (JNum (1 / 2))"
    "field stored_order ''cryptoAmount'' = Some (JNum (1 / 500))"
    "field stored_order ''cryptoFee'' = Some (JNum (1 / 10000))"
    "field stored_order ''txHash'' = Some (JStr ''0xfeed'')"
    by (simp_all add: stored_order_def)
  have remote: "read (data (ok_response (wyre_order JNull))) ''transferId'' = JNull"
    "getOrderStatus api_no_transfer (read stored_order ''id'') = Inr (ok_response (wyre_order JNull))"
    by (simp_all add: read_def ok_response_def wyre_order_def api_no_transfer_def)
  have after: "field (processWyreApplePayOrder plain_runtime fiat_orders api_no_transfer stored_order) ''fee''
     = Some JNull"
   "field (processWyreApplePayOrder plain_runtime fiat_orders api_no_transfer stored_order)
     ''cryptoAmount'' = Some JNull"
   "field (processWyreApplePayOrder plain_runtime fiat_orders api_no_transfer stored_order)
     ''cryptoFee'' = Some JNull"
   "field (processWyreApplePayOrder plain_runtime fiat_orders api_no_transfer stored_order)
     ''txHash'' = Some JNull"
    unfolding res by (simp_all add: spread_def)
  from before remote after show ?thesis by simp
qed


section \<open>The password screen\<close>






section \<open>The mnemonic helper\<close>



lemma signMessageWithAccount0_eq:
  "signMessageWithAccount0 E t msg =
     signPersonalMessage E t (byteArrayToHex E msg) (first_account (accountsOrdered E))"
  by (cases "signPersonalMessage E t (byteArrayToHex E msg) (first_account (accountsOrdered E))")
    (simp_all add: signMessageWithAccount0_def)

text \<open>
  C7: when \<open>signPersonalMessage\<close> gives the same answer on every occasion for the
  same data and account, and the encryptor decrypts, under a password, what it
  encrypted under that password, then \<open>decryptMnemonic\<close> applied to what
  \<open>encryptMnenomic\<close> returned for a mnemonic returns that mnemonic; and
  \<open>encryptMnenomic\<close> does return whenever the signing and the encryption do.
\<close>

theorem decryptMnemonic_encryptMnenomic:
  assumes det: "\<forall>t t' d a. signPersonalMessage E t d a = signPersonalMessage E t' d a"
    and law: "\<forall>t p x c. encrypt enc t p x = Inr c \<longrightarrow> decrypt enc p c = Inr x"
  shows "(\<forall>c. encryptMnenomic E enc t m = Inr c \<longrightarrow> decryptMnemonic E enc t' c = Inr m) \<and>
         (\<forall>pw c. signMessageWithAccount0 E t MESSAGE_2_SIGN = Inr pw \<and>
                 encrypt enc t pw m = Inr c \<longrightarrow>
                 encryptMnenomic E enc t m = Inr c \<and> decryptMnemonic E enc t' c = Inr m)"
proof -
  have same: "signMessageWithAccount0 E t' MESSAGE_2_SIGN = signMessageWithAccount0 E t MESSAGE_2_SIGN"
    using det by (simp add: signMessageWithAccount0_eq)
  have a: "decryptMnemonic E enc t' c = Inr m" if "encryptMnenomic E enc t m = Inr c" for c
  proof -
    from that obtain pw where pw: "signMessageWithAccount0 E t MESSAGE_2_SIGN = Inr pw"
      and c: "encrypt enc t pw m = Inr c"
      by (auto simp: encryptMnenomic_def bind_exn_eq_Inr)
    from law c have "decrypt enc pw c = Inr m" by blast
    with pw same show ?thesis by (simp add: decryptMnemonic_def)
  qed
  have b: "encryptMnenomic E enc t m = Inr c"
    if "signMessageWithAccount0 E t MESSAGE_2_SIGN = Inr pw" "encrypt enc t pw m = Inr c" for pw c
    using that by (simp add: encryptMnenomic_def)
  from a b show ?thesis by blast
qed

theorem decryptMnemonic_encryptMnenomic_witness:
  "encryptMnenomic engine_one_account prefix_encryptor 0 ''abandon ability able''
     = Inr (''sig:0x9E01:0xInstaPayMnemonic'' @ ''abandon ability able'') \<and>
   decryptMnemonic engine_one_account prefix_encryptor 1
      (''sig:0x9E01:0xInstaPayMnemonic'' @ ''abandon ability able'')
     = Inr ''abandon ability able''"
proof -
  have det: "\<forall>t t' d a. signPersonalMessage engine_one_account t d a
      = signPersonalMessage engine_one_account t' d a"
    by (simp add: engine_one_account_def strict_signer_def)
  have law: "\<forall>t p x c. encrypt prefix_encryptor t p x = Inr c \<longrightarrow>
      decrypt prefix_encryptor p c = Inr x"
    by (auto simp: prefix_encryptor_def)
  have e: "encryptMnenomic engine_one_account prefix_encryptor 0 ''abandon ability able''
     = Inr (''sig:0x9E01:0xInstaPayMnemonic'' @ ''abandon ability able'')"
    by (simp add: encryptMnenomic_def signMessageWithAccount0_def engine_one_account_def
        strict_signer_def accountsOrdered_def first_account_def prefix_encryptor_def
        MESSAGE_2_SIGN_def)
  from decryptMnemonic_encryptMnenomic [OF det law, of 0 "''abandon ability able''" 1] e
  show ?thesis by blast
qed



section \<open>The checkout\<close>

lemma createPayload_checkout:
  "createPayload plain_runtime (JStr ''AC_RNWQNRAZFPC'') (JNum 2) (JStr ''0x9E01'') sheet_details
     = Inr checkout_payload"
  by (simp add: createPayload_def sheet_details_def checkout_payload_def ToString_def
      spread_def USD_CURRENCY_CODE_def ETH_CURRENCY_CODE_def)

lemma index_from_found:
  "0 \<le> index_from s (c # p) i \<Longrightarrow> c \<in> set s"
proof (induction s arbitrary: i)
  case Nil
  then show ?case by simp
next
  case (Cons x xs)
  show ?case
  proof (cases "x = c")
    case True
    then show ?thesis by simp
  next
    case False
    with Cons.prems have "0 \<le> index_from xs (c # p) (Suc i)" by simp
    from Cons.IH [OF this] show ?thesis by simp
  qed
qed

lemma includes_str_first: "includes_str s (c # p) \<Longrightarrow> c \<in> set s"
  unfolding includes_str_def indexOf_def by (rule index_from_found)

lemma digit_not_A: "n < 10 \<Longrightarrow> digit n \<noteq> CHR ''A''"
proof -
  assume "n < 10"
  then have "digit n \<in> set ''0123456789''"
    unfolding digit_def by (intro nth_mem) simp
  then show ?thesis by auto
qed

lemma decimal_no_A: "CHR ''A'' \<notin> set (decimal n)"
proof (induction n rule: decimal.induct)
  case (1 n)
  show ?case
  proof (cases "n < 10")
    case True
    then show ?thesis using digit_not_A [of n] by (subst decimal.simps) simp
  next
    case False
    have "n mod 10 < 10" by simp
    from digit_not_A [OF this] 1 [OF False] False show ?thesis
      by (subst decimal.simps) simp
  qed
qed

lemma status_message_no_abort:
  "\<not> includes_str (''Request failed with status code '' @ decimal n) ''AbortError''"
proof
  assume "includes_str (''Request failed with status code '' @ decimal n) ''AbortError''"
  then have "CHR ''A'' \<in> set (''Request failed with status code '' @ decimal n)"
    by (rule includes_str_first)
  with decimal_no_A [of n] show False by simp
qed

lemma pay_confirmed_sheet:
  "new_PaymentRequest pay_confirmed =
     Inr \<lparr>show_sheet = Inr (Some \<lparr>details = sheet_details, complete = (\<lambda>s. None)\<rparr>)\<rparr>"
  "partnerId pay_confirmed = JStr ''AC_RNWQNRAZFPC''"
  by (simp_all add: pay_confirmed_def)

lemma post_api_answers:
  "post (api_answers st body) p = Inr ((ok_response body)\<lparr>status := st\<rparr>)"
  "status ((ok_response body)\<lparr>status := st\<rparr>) = st"
  "data ((ok_response body)\<lparr>status := st\<rparr>) = body"
  by (simp_all add: api_answers_def ok_response_def)

lemma decimal_100: "decimal 100 = ''100''"
  by (simp add: decimal.simps digit_def)

lemma wyreOrderToFiatOrder_wyre_order:
  "wyreOrderToFiatOrder fiat_orders (wyre_order JNull) =
     Inr [(''id'', JStr ''WO_ELTUVYCAFPG''),
          (''provider'', JStr ''WYRE_APPLE_PAY''),
          (''amount'', JNum 2),
          (''fee'', JNull),
          (''cryptoAmount'', JNull),
          (''cryptoFee'', JNull),
          (''currency'', JStr ''USD''),
          (''cryptocurrency'', JStr ''ETH''),
          (''state'', JStr ''PENDING''),
          (''account'', JStr ''0x9E01''),
          (''txHash'', JNull),
          (''data'', JObj [(''order'', wyre_order JNull)])]"
  by (simp add: wyreOrderToFiatOrder_def wyreOrderStateToFiatState_def
      WYRE_ORDER_STATES_COMPLETE_def WYRE_ORDER_STATES_FAILED_def fiat_orders_def
      wyre_order_def indexOf_def substring_def)

text \<open>
  A rejection whose message contains \<open>AbortError\<close> is turned into \<open>null\<close> by the \<open>catch\<close>
  wherever it was thrown, the \<open>WyreException\<close> of the \<open>try\<close> included.
\<close>

lemma showRequest_swallows_abort_text:
  "showRequest plain_runtime fiat_orders
       (api_answers 400 (JObj [(''message'', JStr ''AbortError''),
                               (''type'', JStr ''ValidationException''),
                               (''exceptionId'', JStr ''BA7GRH'')]))
       pay_confirmed (JNum 2) (JStr ''0x9E01'') (JStr ''1'') =
     ([Show, Post checkout_payload, Complete ''fail''], Inr JNull)"
  by (simp add: showRequest_def showRequest_try_def pay_confirmed_sheet createPayload_checkout
      createFiatOrder_def validateStatus_def post_api_answers new_WyreException_def
      ToString_def PAYMENT_REQUEST_COMPLETE_FAIL_def includes_str_def indexOf_def)

text \<open>
  C6, as the code has it. After the sheet is confirmed and the payload built:
  a response with a status from 200 to 299, when \<open>complete('success')\<close> resolves and
  the body can be normalised, gives the effects show, post, complete with success and
  returns the normalised order with the network; a response with a status of 300 or
  more whose body has a string \<open>message\<close> without the text \<open>AbortError\<close> gives show,
  post, complete with fail, abort and throws a \<open>WyreException\<close> with the message, type
  and exceptionId of the body; a response with a status below 200 is rejected by the
  client (\<open>validateStatus\<close>), the sheet is aborted and the client's error is thrown;
  a sheet whose \<open>show()\<close> rejects with a message containing \<open>AbortError\<close> gives \<open>null\<close>.
\<close>

theorem showRequest_outcomes:
  "(new_PaymentRequest pay = Inr pr \<and> show_sheet pr = Inr (Some resp) \<and>
    createPayload rt (partnerId pay) total' address (details resp) = Inr payload \<and>
    post api payload = Inr r \<and> 200 \<le> status r \<and> status r < 300 \<and>
    complete resp PAYMENT_REQUEST_COMPLETE_SUCCESS = None \<and>
    wyreOrderToFiatOrder F (data r) = Inr fo
    \<longrightarrow> showRequest rt F api pay total' address network =
          ([Show, Post payload, Complete ''success''],
           Inr (JObj (set_prop (spread [] fo) ''network'' network)))) \<and>
   (new_PaymentRequest pay = Inr pr \<and> show_sheet pr = Inr (Some resp) \<and>
    createPayload rt (partnerId pay) total' address (details resp) = Inr payload \<and>
    post api payload = Inr r \<and> 300 \<le> status r \<and>
    member (data r) ''message'' = Inr (JStr m) \<and> \<not> includes_str m ''AbortError''
    \<longrightarrow> showRequest rt F api pay total' address network =
          ([Show, Post payload, Complete ''fail'', Abort],
           Inl (WyreException m (read (data r) ''type'') (read (data r) ''exceptionId'')))) \<and>
   (new_PaymentRequest pay = Inr pr \<and> show_sheet pr = Inr (Some resp) \<and>
    createPayload rt (partnerId pay) total' address (details resp) = Inr payload \<and>
    post api payload = Inr r \<and> status r < 200
    \<longrightarrow> showRequest rt F api pay total' address network =
          ([Show, Post payload, Abort],
           Inl (Error (''Request failed with status code '' @ decimal (status r))))) \<and>
   (new_PaymentRequest pay = Inr pr \<and> show_sheet pr = Inl e \<and>
    includes_str (exn_message e) ''AbortError''
    \<longrightarrow> showRequest rt F api pay total' address network = ([Show], Inr JNull))"
proof -
  have a: "showRequest rt F api pay total' address network =
          ([Show, Post payload, Complete ''success''],
           Inr (JObj (set_prop (spread [] fo) ''network'' network)))"
    if "new_PaymentRequest pay = Inr pr" "show_sheet pr = Inr (Some resp)"
      "createPayload rt (partnerId pay) total' address (details resp) = Inr payload"
      "post api payload = Inr r" "200 \<le> status r" "status r < 300"
      "complete resp PAYMENT_REQUEST_COMPLETE_SUCCESS = None"
      "wyreOrderToFiatOrder F (data r) = Inr fo"
    using that
    by (simp add: showRequest_def showRequest_try_def createFiatOrder_def validateStatus_def
        PAYMENT_REQUEST_COMPLETE_SUCCESS_def)
  have b: "showRequest rt F api pay total' address network =
          ([Show, Post payload, Complete ''fail'', Abort],
           Inl (WyreException m (read (data r) ''type'') (read (data r) ''exceptionId'')))"
    if "new_PaymentRequest pay = Inr pr" "show_sheet pr = Inr (Some resp)"
      "createPayload rt (partnerId pay) total' address (details resp) = Inr payload"
      "post api payload = Inr r" "300 \<le> status r"
      "member (data r) ''message'' = Inr (JStr m)" "\<not> includes_str m ''AbortError''"
  proof -
    from that(6) obtain ps where d: "data r = JObj ps" by (cases "data r") simp_all
    then have t: "truthy (data r)" by simp
    have "new_WyreException rt (JStr m) (read (data r) ''type'') (read (data r) ''exceptionId'')
        = WyreException m (read (data r) ''type'') (read (data r) ''exceptionId'')"
      by (simp add: new_WyreException_def ToString_def)
    with that show ?thesis
      by (simp add: showRequest_def showRequest_try_def createFiatOrder_def validateStatus_def
          PAYMENT_REQUEST_COMPLETE_FAIL_def member_truthy [OF t])
  qed
  have c: "showRequest rt F api pay total' address network =
          ([Show, Post payload, Abort],
           Inl (Error (''Request failed with status code '' @ decimal (status r))))"
    if "new_PaymentRequest pay = Inr pr" "show_sheet pr = Inr (Some resp)"
      "createPayload rt (partnerId pay) total' address (details resp) = Inr payload"
      "post api payload = Inr r" "status r < 200"
    using that status_message_no_abort [of "status r"]
    by (simp add: showRequest_def showRequest_try_def createFiatOrder_def validateStatus_def)
  have d: "showRequest rt F api pay total' address network = ([Show], Inr JNull)"
    if "new_PaymentRequest pay = Inr pr" "show_sheet pr = Inl e"
      "includes_str (exn_message e) ''AbortError''"
    using that by (simp add: showRequest_def showRequest_try_def)
  from a b c d show ?thesis by blast
qed

theorem showRequest_outcomes_witness:
  "showRequest plain_runtime fiat_orders (api_answers 201 (wyre_order JNull)) pay_confirmed
       (JNum 2) (JStr ''0x9E01'') (JStr ''1'') =
     ([Show, Post checkout_payload, Complete ''success''],
      Inr (JObj [(''id'', JStr ''WO_ELTUVYCAFPG''),
                 (''provider'', JStr ''WYRE_APPLE_PAY''),
                 (''amount'', JNum 2),
                 (''fee'', JNull),
                 (''cryptoAmount'', JNull),
                 (''cryptoFee'', JNull),
                 (''currency'', JStr ''USD''),
                 (''cryptocurrency'', JStr ''ETH''),
                 (''state'', JStr ''PENDING''),
                 (''account'', JStr ''0x9E01''),
                 (''txHash'', JNull),
                 (''data'', JObj [(''order'', wyre_order JNull)]),
                 (''network'', JStr ''1'')])) \<and>
   showRequest plain_runtime fiat_orders (api_answers 400 wyre_error) pay_confirmed
       (JNum 2) (JStr ''0x9E01'') (JStr ''1'') =
     ([Show, Post checkout_payload, Complete ''fail'', Abort],
      Inl (WyreException ''Amount is below the minimum'' (JStr ''ValidationException'')
             (JStr ''BA7GRH''))) \<and>
   showRequest plain_runtime fiat_orders (api_answers 100 wyre_error) pay_confirmed
       (JNum 2) (JStr ''0x9E01'') (JStr ''1'') =
     ([Show, Post checkout_payload, Abort],
      Inl (Error ''Request failed with status code 100'')) \<and>
   showRequest plain_runtime fiat_orders (api_answers 201 (wyre_order JNull)) pay_cancelled
       (JNum 2) (JStr ''0x9E01'') (JStr ''1'') = ([Show], Inr JNull)"
proof -
  let ?pr = "\<lparr>show_sheet = Inr (Some \<lparr>details = sheet_details, complete = (\<lambda>s. None)\<rparr>)\<rparr>"
  let ?resp = "\<lparr>details = sheet_details, complete = (\<lambda>s. None)\<rparr>"
  have sheet: "show_sheet ?pr = Inr (Some ?resp)" "details ?resp = sheet_details"
    "complete ?resp PAYMENT_REQUEST_COMPLETE_SUCCESS = None"
    by simp_all
  have payload: "createPayload plain_runtime (partnerId pay_confirmed) (JNum 2) (JStr ''0x9E01'')
      (details ?resp) = Inr checkout_payload"
    by (simp add: pay_confirmed_sheet createPayload_checkout)
  have msg: "member wyre_error ''message'' = Inr (JStr ''Amount is below the minimum'')"
    "read wyre_error ''type'' = JStr ''ValidationException''"
    "read wyre_error ''exceptionId'' = JStr ''BA7GRH''"
    by (simp_all add: wyre_error_def read_def)
  have no_abort: "\<not> includes_str ''Amount is below the minimum'' ''AbortError''"
    by (simp add: includes_str_def indexOf_def)
  have cancelled: "new_PaymentRequest pay_cancelled = Inr \<lparr>show_sheet = Inl (Error ''AbortError'')\<rparr>"
    "show_sheet \<lparr>show_sheet = Inl (Error ''AbortError'')\<rparr> = Inl (Error ''AbortError'')"
    "includes_str (exn_message (Error ''AbortError'')) ''AbortError''"
    by (simp_all add: pay_cancelled_def includes_str_def indexOf_def)
  note t1 = showRequest_outcomes
    [of pay_confirmed ?pr ?resp plain_runtime "JNum 2" "JStr ''0x9E01''" checkout_payload
        "api_answers 201 (wyre_order JNull)" "(ok_response (wyre_order JNull))\<lparr>status := 201\<rparr>"
        fiat_orders _ "JStr ''1''", THEN conjunct1]
  note t2 = showRequest_outcomes
    [of pay_confirmed ?pr ?resp plain_runtime "JNum 2" "JStr ''0x9E01''" checkout_payload
        "api_answers 400 wyre_error" "(ok_response wyre_error)\<lparr>status := 400\<rparr>"
        fiat_orders _ "JStr ''1''" "''Amount is below the minimum''",
        THEN conjunct2, THEN conjunct1]
  note t3 = showRequest_outcomes
    [of pay_confirmed ?pr ?resp plain_runtime "JNum 2" "JStr ''0x9E01''" checkout_payload
        "api_answers 100 wyre_error" "(ok_response wyre_error)\<lparr>status := 100\<rparr>"
        fiat_orders _ "JStr ''1''", THEN conjunct2, THEN conjunct2, THEN conjunct1]
  note t4 = showRequest_outcomes
    [of pay_cancelled "\<lparr>show_sheet = Inl (Error ''AbortError'')\<rparr>" _ plain_runtime
        "JNum 2" "JStr ''0x9E01''" _ "api_answers 201 (wyre_order JNull)" _
        fiat_orders _ "JStr ''1''" _ "Error ''AbortError''",
        THEN conjunct2, THEN conjunct2, THEN conjunct2]
  have r1: "showRequest plain_runtime fiat_orders (api_answers 201 (wyre_order JNull)) pay_confirmed
       (JNum 2) (JStr ''0x9E01'') (JStr ''1'') =
     ([Show, Post checkout_payload, Complete ''success''],
      Inr (JObj (set_prop (spread []
                 [(''id'', JStr ''WO_ELTUVYCAFPG''),
                 (''provider'', JStr ''WYRE_APPLE_PAY''),
                 (''amount'', JNum 2),
                 (''fee'', JNull),
                 (''cryptoAmount'', JNull),
                 (''cryptoFee'', JNull),
                 (''currency'', JStr ''USD''),
                 (''cryptocurrency'', JStr ''ETH''),
                 (''state'', JStr ''PENDING''),
                 (''account'', JStr ''0x9E01''),
                 (''txHash'', JNull),
                 (''data'', JObj [(''order'', wyre_order JNull)])]) ''network'' (JStr ''1''))))"
    by (rule t1 [rule_format])
      (simp add: pay_confirmed_sheet sheet createPayload_checkout post_api_answers
        wyreOrderToFiatOrder_wyre_order)
  have r2: "showRequest plain_runtime fiat_orders (api_answers 400 wyre_error) pay_confirmed
       (JNum 2) (JStr ''0x9E01'') (JStr ''1'') =
     ([Show, Post checkout_payload, Complete ''fail'', Abort],
      Inl (WyreException ''Amount is below the minimum''
            (read (data ((ok_response wyre_error)\<lparr>status := 400\<rparr>)) ''type'')
            (read (data ((ok_response wyre_error)\<lparr>status := 400\<rparr>)) ''exceptionId'')))"
    by (rule t2 [rule_format])
      (simp add: pay_confirmed_sheet sheet createPayload_checkout post_api_answers msg no_abort)
  have r3: "showRequest plain_runtime fiat_orders (api_answers 100 wyre_error) pay_confirmed
       (JNum 2) (JStr ''0x9E01'') (JStr ''1'') =
     ([Show, Post checkout_payload, Abort],
      Inl (Error (''Request failed with status code '' @
             decimal (status ((ok_response wyre_error)\<lparr>status := 100\<rparr>)))))"
    by (rule t3 [rule_format])
      (simp add: pay_confirmed_sheet sheet createPayload_checkout post_api_answers)
  have r4: "showRequest plain_runtime fiat_orders (api_answers 201 (wyre_order JNull)) pay_cancelled
       (JNum 2) (JStr ''0x9E01'') (JStr ''1'') = ([Show], Inr JNull)"
    by (rule t4 [rule_format]) (simp add: cancelled includes_str_def indexOf_def)
  from r1 r2 r3 r4 show ?thesis
    by (simp add: spread_def post_api_answers msg decimal_100)
qed


text \<open>
  The claim C6 as it was stated fails for a status below 200 (the error thrown is the
  client's, not a \<open>WyreException\<close>), for a status from 200 to 299 with a body that has
  no destination (the sheet is completed with success, then a \<open>TypeError\<close> is thrown
  and the sheet aborted), and for a status outside 200 to 299 with the body \<open>null\<close> (a
  \<open>TypeError\<close> is thrown).
\<close>

theorem showRequest_outcomes_counterexample:
  "showRequest plain_runtime fiat_orders (api_answers 100 wyre_error) pay_confirmed
       (JNum 2) (JStr ''0x9E01'') (JStr ''1'') =
     ([Show, Post checkout_payload, Abort],
      Inl (Error ''Request failed with status code 100'')) \<and>
   showRequest plain_runtime fiat_orders (api_answers 201 (JObj [])) pay_confirmed
       (JNum 2) (JStr ''0x9E01'') (JStr ''1'') =
     ([Show, Post checkout_payload, Complete ''success'', Abort],
      Inl (TypeError ''undefined is not an object'')) \<and>
   showRequest plain_runtime fiat_orders (api_answers 500 JNull) pay_confirmed
       (JNum 2) (JStr ''0x9E01'') (JStr ''1'') =
     ([Show, Post checkout_payload, Complete ''fail'', Abort],
      Inl (TypeError ''null is not an object''))"
proof -
  have no_abort: "\<not> includes_str ''Request failed with status code 100'' ''AbortError''"
    "\<not> includes_str ''undefined is not an object'' ''AbortError''"
    "\<not> includes_str ''null is not an object'' ''AbortError''"
    by (simp_all add: includes_str_def indexOf_def)
  have c1: "showRequest plain_runtime fiat_orders (api_answers 100 wyre_error) pay_confirmed
       (JNum 2) (JStr ''0x9E01'') (JStr ''1'') =
     ([Show, Post checkout_payload, Abort],
      Inl (Error ''Request failed with status code 100''))"
    using no_abort
    by (simp add: showRequest_def showRequest_try_def pay_confirmed_sheet createPayload_checkout
        createFiatOrder_def validateStatus_def post_api_answers decimal_100)
  have c2: "showRequest plain_runtime fiat_orders (api_answers 201 (JObj [])) pay_confirmed
       (JNum 2) (JStr ''0x9E01'') (JStr ''1'') =
     ([Show, Post checkout_payload, Complete ''success'', Abort],
      Inl (TypeError ''undefined is not an object''))"
    using no_abort
    by (simp add: showRequest_def showRequest_try_def pay_confirmed_sheet createPayload_checkout
        createFiatOrder_def validateStatus_def post_api_answers wyreOrderToFiatOrder_def
        PAYMENT_REQUEST_COMPLETE_SUCCESS_def)
  have c3: "showRequest plain_runtime fiat_orders (api_answers 500 JNull) pay_confirmed
       (JNum 2) (JStr ''0x9E01'') (JStr ''1'') =
     ([Show, Post checkout_payload, Complete ''fail'', Abort],
      Inl (TypeError ''null is not an object''))"
    using no_abort
    by (simp add: showRequest_def showRequest_try_def pay_confirmed_sheet createPayload_checkout
        createFiatOrder_def validateStatus_def post_api_answers
        PAYMENT_REQUEST_COMPLETE_FAIL_def)
  from c1 c2 c3 show ?thesis by simp
qed

end
